theory Spec2Isabelle
  imports Complex_Main "HOL-Library.Multiset"
begin

section \<open>Data model of the pruning task generators\<close>

text \<open>
  The embedding follows
  \<^verbatim>\<open>nni/algorithms/compression/v2/pytorch/pruning/tools/task_generator.py\<close> and
  \<^verbatim>\<open>nni/runtime/commands/base.py\<close>.

  Python floats are idealised as \<^typ>\<open>real\<close> (no rounding, no infinities, no NaN);
  Python ints are \<^typ>\<open>int\<close>. A Python dict is an association list in insertion
  order with \<^const>\<open>map_of\<close> as its lookup, because \<^verbatim>\<open>_sparsity_to_config_list\<close>
  sorts the items of \<^verbatim>\<open>weights_numel\<close> and the order of equal keys is then the
  insertion order. Every exception the code can raise is a value \<open>Inl e\<close>.
\<close>

datatype py_key = StrKey string | IntKey int

datatype py_error =
    KeyError py_key
  | ZeroDivisionError
  | TypeError
  | IndexError
  | NameError string
  | AssertionError "real list"

text \<open>
  A canonical config group: the keys \<^verbatim>\<open>op_names\<close> and \<^verbatim>\<open>total_sparsity\<close> of the
  config dict.
\<close>

record config =
  op_names :: "string list"
  total_sparsity :: real

type_synonym numel_table = "(string \<times> int) list"
type_synonym rate_table = "(string \<times> real) list"

section \<open>SimulatedAnnealingTaskGenerator: target adjustment and recovery\<close>

text \<open>
  The inner loop of \<^verbatim>\<open>_adjust_target_sparsity\<close> over the op names of one group.
  \<^verbatim>\<open>self.weights_numel[name]\<close> raises KeyError for an unknown name;
  \<^verbatim>\<open>1 / self.masked_rate[name]\<close> raises ZeroDivisionError for a rate of 0 and
  \<^verbatim>\<open>1 / (1 / rate - 1)\<close> for a rate of 1.
\<close>

fun adjust_numel :: "numel_table \<Rightarrow> rate_table \<Rightarrow> string list \<Rightarrow> int \<Rightarrow> real
    \<Rightarrow> py_error + (int \<times> real)" where
  "adjust_numel wn mr [] remaining pruned = Inr (remaining, pruned)"
| "adjust_numel wn mr (name # names) remaining pruned =
     (case map_of wn name of
        None \<Rightarrow> Inl (KeyError (StrKey name))
      | Some w \<Rightarrow>
          (case map_of mr name of
             None \<Rightarrow> adjust_numel wn mr names (remaining + w) pruned
           | Some m \<Rightarrow>
               if m = 0 then Inl ZeroDivisionError
               else if 1 / m - 1 = 0 then Inl ZeroDivisionError
               else adjust_numel wn mr names (remaining + w)
                      (pruned + 1 / (1 / m - 1) * real_of_int w)))"

definition adjust_config :: "numel_table \<Rightarrow> rate_table \<Rightarrow> config \<Rightarrow> py_error + config" where
  "adjust_config wn mr c =
     (case adjust_numel wn mr (op_names c) 0 0 of
        Inl e \<Rightarrow> Inl e
      | Inr (remaining, pruned) \<Rightarrow>
          if pruned + real_of_int remaining = 0 then Inl ZeroDivisionError
          else Inr (c\<lparr>total_sparsity :=
                 max 0 (total_sparsity c - pruned / (pruned + real_of_int remaining))\<rparr>))"

fun adjust_all :: "numel_table \<Rightarrow> rate_table \<Rightarrow> config list \<Rightarrow> py_error + config list" where
  "adjust_all wn mr [] = Inr []"
| "adjust_all wn mr (c # cs) =
     (case adjust_config wn mr c of
        Inl e \<Rightarrow> Inl e
      | Inr c' \<Rightarrow> (case adjust_all wn mr cs of Inl e \<Rightarrow> Inl e | Inr cs' \<Rightarrow> Inr (c' # cs')))"

definition adjust_target_sparsity ::
    "numel_table \<Rightarrow> rate_table \<Rightarrow> config list \<Rightarrow> py_error + config list" where
  "adjust_target_sparsity wn mr target_sparsity_list =
     (if length mr > 0 then adjust_all wn mr target_sparsity_list
      else Inr target_sparsity_list)"

text \<open>
  \<^verbatim>\<open>_recover_real_sparsity\<close>: every exported entry names exactly one op (asserted);
  an op with a prior mask rate \<open>m\<close> gets \<open>m + s * (1 - m)\<close>.
\<close>

definition recover_config :: "rate_table \<Rightarrow> config \<Rightarrow> py_error + config" where
  "recover_config mr c =
     (case op_names c of
        [op_name] \<Rightarrow>
          (case map_of mr op_name of
             None \<Rightarrow> Inr c
           | Some m \<Rightarrow> Inr (c\<lparr>total_sparsity := m + total_sparsity c * (1 - m)\<rparr>))
      | _ \<Rightarrow> Inl (AssertionError []))"

fun recover_real_sparsity :: "rate_table \<Rightarrow> config list \<Rightarrow> py_error + config list" where
  "recover_real_sparsity mr [] = Inr []"
| "recover_real_sparsity mr (c # cs) =
     (case recover_config mr c of
        Inl e \<Rightarrow> Inl e
      | Inr c' \<Rightarrow>
          (case recover_real_sparsity mr cs of Inl e \<Rightarrow> Inl e | Inr cs' \<Rightarrow> Inr (c' # cs')))"

section \<open>SimulatedAnnealingTaskGenerator: rescaling\<close>

text \<open>Python's \<^verbatim>\<open>int(x)\<close> on a float truncates toward zero.\<close>

definition py_int :: "real \<Rightarrow> int" where
  "py_int x = (if 0 \<le> x then \<lfloor>x\<rfloor> else \<lceil>x\<rceil>)"

fun lookup_numel :: "numel_table \<Rightarrow> string list \<Rightarrow> py_error + int list" where
  "lookup_numel wn [] = Inr []"
| "lookup_numel wn (n # ns) =
     (case map_of wn n of
        None \<Rightarrow> Inl (KeyError (StrKey n))
      | Some w \<Rightarrow> (case lookup_numel wn ns of Inl e \<Rightarrow> Inl e | Inr ws \<Rightarrow> Inr (w # ws)))"

text \<open>
  The loop that accumulates \<^verbatim>\<open>total_weights\<close> and \<^verbatim>\<open>total_weights_pruned\<close>;
  the lists have the same length (asserted before).
\<close>

fun scale_totals :: "int list \<Rightarrow> real list \<Rightarrow> int \<Rightarrow> int \<Rightarrow> int \<times> int" where
  "scale_totals (w # ws) (s # ss) total_weights total_weights_pruned =
     scale_totals ws ss (total_weights + w) (total_weights_pruned + py_int (real_of_int w * s))"
| "scale_totals _ _ total_weights total_weights_pruned = (total_weights, total_weights_pruned)"

text \<open>
  \<^verbatim>\<open>_rescale_sparsity\<close>: \<open>Inr None\<close> is the Python \<^verbatim>\<open>None\<close>, \<open>Inr (Some v)\<close>
  the rescaled vector.
\<close>

definition rescale_sparsity ::
    "numel_table \<Rightarrow> real list \<Rightarrow> real \<Rightarrow> string list \<Rightarrow> py_error + real list option" where
  "rescale_sparsity wn random_sparsity target_sparsity names =
     (if length random_sparsity \<noteq> length names then Inl (AssertionError [])
      else case lookup_numel wn names of
        Inl e \<Rightarrow> Inl e
      | Inr ws \<Rightarrow>
          (let num_weights = sort ws;
               sparsity = sort random_sparsity;
               (total_weights, total_weights_pruned) = scale_totals num_weights sparsity 0 0
           in if total_weights_pruned = 0 then Inr None
              else if total_weights = 0 then Inl ZeroDivisionError
              else let scale = target_sparsity /
                         (real_of_int total_weights_pruned / real_of_int total_weights)
                   in Inr (Some (map (\<lambda>s. s * scale) sparsity))))"

text \<open>
  The quantities the specification names for the rescale: the floored pruned-element
  count, the total element count, the pruned-element count without the floor, and the
  weighted pruned fraction of a sparsity vector.
\<close>

definition pruned_elements :: "int list \<Rightarrow> real list \<Rightarrow> int" where
  "pruned_elements ws fr = (\<Sum>(w, f) \<leftarrow> zip ws fr. \<lfloor>real_of_int w * f\<rfloor>)"

definition total_elements :: "int list \<Rightarrow> int" where
  "total_elements ws = sum_list ws"

definition exact_pruned :: "int list \<Rightarrow> real list \<Rightarrow> real" where
  "exact_pruned ws fr = (\<Sum>(w, f) \<leftarrow> zip ws fr. real_of_int w * f)"

definition weighted_fraction :: "int list \<Rightarrow> real list \<Rightarrow> real" where
  "weighted_fraction ws fr = exact_pruned ws fr / real_of_int (total_elements ws)"

section \<open>Function-based task generators (AGP, Linear, LotteryTicket)\<close>

datatype schedule = AGP | Linear | LotteryTicket

text \<open>
  Python's \<^verbatim>\<open>x ** y\<close> on floats: \<^verbatim>\<open>0.0\<close> to a negative power raises
  ZeroDivisionError, and a negative base with a fractional exponent gives a complex number.
\<close>

datatype py_num = PyFloat real | PyComplex

definition py_float_pow :: "real \<Rightarrow> real \<Rightarrow> py_error + py_num" where
  "py_float_pow x y =
     (if y = 0 then Inr (PyFloat 1)
      else if x = 0 then (if y < 0 then Inl ZeroDivisionError else Inr (PyFloat 0))
      else if x < 0 then
        (if y = real_of_int \<lfloor>y\<rfloor> then Inr (PyFloat (x powi \<lfloor>y\<rfloor>)) else Inr PyComplex)
      else Inr (PyFloat (x powr y)))"

text \<open>
  \<^verbatim>\<open>ori_sparsity\<close> of the three \<^verbatim>\<open>generate_config_list\<close> methods;
  \<^verbatim>\<open>iteration / self.total_iteration\<close> is a true division of two ints.
\<close>

definition ori_sparsity :: "schedule \<Rightarrow> int \<Rightarrow> int \<Rightarrow> real \<Rightarrow> py_error + py_num" where
  "ori_sparsity sch total_iteration iteration target =
     (if total_iteration = 0 then Inl ZeroDivisionError
      else let r = real_of_int iteration / real_of_int total_iteration in
        case sch of
          AGP \<Rightarrow> Inr (PyFloat ((1 - (1 - r) ^ 3) * target))
        | Linear \<Rightarrow> Inr (PyFloat (r * target))
        | LotteryTicket \<Rightarrow>
            (case py_float_pow (1 - target) r of
               Inl e \<Rightarrow> Inl e
             | Inr (PyFloat p) \<Rightarrow> Inr (PyFloat (1 - p))
             | Inr PyComplex \<Rightarrow> Inr PyComplex))"

text \<open>
  The body of the loop over \<^verbatim>\<open>zip(target_sparsity, compact2origin_sparsity)\<close>: the
  division raises ZeroDivisionError when the achieved sparsity is 1, \<^verbatim>\<open>max\<close> raises
  TypeError on a complex number, and the assertion reports \<^verbatim>\<open>sparsity\<close>,
  \<^verbatim>\<open>ori_sparsity\<close> and the model sparsity.
\<close>

definition group_config ::
    "schedule \<Rightarrow> int \<Rightarrow> int \<Rightarrow> config \<Rightarrow> config \<Rightarrow> py_error + config" where
  "group_config sch total_iteration iteration target mo =
     (case ori_sparsity sch total_iteration iteration (total_sparsity target) of
        Inl e \<Rightarrow> Inl e
      | Inr ori \<Rightarrow>
          if 1 - total_sparsity mo = 0 then Inl ZeroDivisionError
          else (case ori of
             PyComplex \<Rightarrow> Inl TypeError
           | PyFloat ori_sp \<Rightarrow>
               (let sparsity = max 0 ((ori_sp - total_sparsity mo) / (1 - total_sparsity mo))
                in if 0 \<le> sparsity \<and> sparsity \<le> 1
                   then Inr (target\<lparr>total_sparsity := sparsity\<rparr>)
                   else Inl (AssertionError [sparsity, ori_sp, total_sparsity mo]))))"

fun generate_config_list ::
    "schedule \<Rightarrow> int \<Rightarrow> int \<Rightarrow> config list \<Rightarrow> config list \<Rightarrow> py_error + config list" where
  "generate_config_list sch total_iteration iteration (target # targets) (mo # mos) =
     (case group_config sch total_iteration iteration target mo of
        Inl e \<Rightarrow> Inl e
      | Inr c \<Rightarrow>
          (case generate_config_list sch total_iteration iteration targets mos of
             Inl e \<Rightarrow> Inl e
           | Inr cs \<Rightarrow> Inr (c # cs)))"
| "generate_config_list sch total_iteration iteration _ _ = Inr []"

text \<open>
  The specification's cumulative-target functions \<open>C(i)\<close> and its incremental sparsity
  \<open>S = max 0 ((C - A) / (1 - A))\<close>, written from its words.
\<close>

definition cumulative_target :: "schedule \<Rightarrow> int \<Rightarrow> int \<Rightarrow> real \<Rightarrow> real" where
  "cumulative_target sch i N T =
     (case sch of
        AGP \<Rightarrow> T * (1 - (1 - real_of_int i / real_of_int N) ^ 3)
      | Linear \<Rightarrow> T * (real_of_int i / real_of_int N)
      | LotteryTicket \<Rightarrow> 1 - (1 - T) powr (real_of_int i / real_of_int N))"

definition incremental_sparsity :: "real \<Rightarrow> real \<Rightarrow> real" where
  "incremental_sparsity C A = max 0 ((C - A) / (1 - A))"

definition group_increment :: "schedule \<Rightarrow> int \<Rightarrow> int \<Rightarrow> config \<Rightarrow> config \<Rightarrow> real" where
  "group_increment sch i N t mo =
     incremental_sparsity (cumulative_target sch i N (total_sparsity t)) (total_sparsity mo)"

definition in_unit :: "real \<Rightarrow> bool" where
  "in_unit S = (0 \<le> S \<and> S \<le> 1)"

subsection \<open>The driver \<^verbatim>\<open>FunctionBasedTaskGenerator.generate_tasks\<close>\<close>

text \<open>
  A task result carries the id of the finished task (\<^verbatim>\<open>'origin'\<close> for the synthetic
  first result). \<^verbatim>\<open>compute_sparsity\<close> inspects the models and is outside this
  development: its two results used here are fields of the input. A task keeps the id of
  the result whose model and masks it refers to, its config list, the sparsity
  recorded in its \<^verbatim>\<open>state\<close> once it has finished, and its score.
\<close>

datatype result_id = Origin | Tid int

record task =
  task_id :: int
  result_of :: result_id
  config_list :: "config list"
  current2origin :: "config list option"
  score :: "real option"

record task_result =
  result_id :: result_id
  current2origin_sparsity :: "config list"
  compact2origin_sparsity :: "config list"

text \<open>
  The fields of the base class \<^verbatim>\<open>TaskGenerator\<close> that \<^verbatim>\<open>generate_tasks\<close> uses,
  and the fields the function-based generators add.
\<close>

record base_state =
  task_id_candidate :: int
  tasks :: "int \<rightharpoonup> task"

record fb_state = base_state +
  schedule :: schedule
  current_iteration :: int
  total_iteration :: int
  target_sparsity :: "config list"

definition function_based_init ::
    "schedule \<Rightarrow> int \<Rightarrow> config list \<Rightarrow> base_state \<Rightarrow> fb_state" where
  "function_based_init sch N targets b =
     \<lparr>task_id_candidate = task_id_candidate b, tasks = tasks b,
      schedule = sch, current_iteration = 0, total_iteration = N, target_sparsity = targets\<rparr>"

text \<open>
  \<^verbatim>\<open>self._tasks[task_result.task_id].state['current2origin_sparsity'] = ...\<close>, skipped
  for the origin result; an unknown task id raises KeyError.
\<close>

definition record_sparsity :: "fb_state \<Rightarrow> task_result \<Rightarrow> py_error + fb_state" where
  "record_sparsity s r =
     (case result_id r of
        Origin \<Rightarrow> Inr s
      | Tid i \<Rightarrow>
          (case tasks s i of
             None \<Rightarrow> Inl (KeyError (IntKey i))
           | Some t \<Rightarrow>
               Inr (s\<lparr>tasks :=
                 (tasks s)(i \<mapsto> t\<lparr>current2origin := Some (current2origin_sparsity r)\<rparr>)\<rparr>)))"

definition generate_tasks :: "fb_state \<Rightarrow> task_result \<Rightarrow> py_error + (task list \<times> fb_state)" where
  "generate_tasks s0 r =
     (case record_sparsity s0 r of
        Inl e \<Rightarrow> Inl e
      | Inr s \<Rightarrow>
          if current_iteration s > total_iteration s then Inr ([], s)
          else
            (case generate_config_list (schedule s) (total_iteration s) (current_iteration s)
                    (target_sparsity s) (compact2origin_sparsity r) of
               Inl e \<Rightarrow> Inl e
             | Inr new_config_list \<Rightarrow>
                 (let task = \<lparr>task_id = task_id_candidate s, result_of = result_id r,
                               config_list = new_config_list, current2origin = None,
                               score = None\<rparr>
                  in Inr ([task],
                       s\<lparr>tasks := (tasks s)(task_id_candidate s \<mapsto> task),
                         task_id_candidate := task_id_candidate s + 1,
                         current_iteration := current_iteration s + 1\<rparr>))))"

text \<open>
  \<^verbatim>\<open>init_pending_tasks\<close> builds the origin result and returns what
  \<^verbatim>\<open>generate_tasks\<close> returns for it.
\<close>

definition init_pending_tasks ::
    "fb_state \<Rightarrow> config list \<Rightarrow> config list \<Rightarrow> py_error + (task list \<times> fb_state)" where
  "init_pending_tasks s cur2o com2o =
     generate_tasks s \<lparr>result_id = Origin, current2origin_sparsity = cur2o,
                        compact2origin_sparsity = com2o\<rparr>"

text \<open>
  Modelled from the spec: the constructor of the base class \<^verbatim>\<open>TaskGenerator\<close> is not
  among the sources. \<^verbatim>\<open>FunctionBasedTaskGenerator.__init__\<close> sets the counter to 0 and
  the targets and then calls it; it is the caller of \<^verbatim>\<open>init_pending_tasks\<close>, the
  specification's first invocation with the synthetic origin result, and keeps the tasks
  returned as pending. \<^verbatim>\<open>LotteryTicketTaskGenerator.__init__\<close> assigns 1 to the counter
  after the inherited constructor has returned, that is, after this first invocation;
  the other two classes inherit the constructor as it is.
\<close>

definition construct ::
    "schedule \<Rightarrow> int \<Rightarrow> config list \<Rightarrow> base_state \<Rightarrow> config list \<Rightarrow> config list
       \<Rightarrow> py_error + (task list \<times> fb_state)" where
  "construct sch N targets b cur2o com2o =
     (case init_pending_tasks (function_based_init sch N targets b) cur2o com2o of
        Inl e \<Rightarrow> Inl e
      | Inr (pending, s) \<Rightarrow>
          Inr (pending, case sch of LotteryTicket \<Rightarrow> s\<lparr>current_iteration := 1\<rparr> | _ \<Rightarrow> s))"

text \<open>
  The executor's loop, as the specification describes it: the first call is fed the
  origin result, every later call the result of the task emitted last; exactly one task
  is in flight. Each element of the feedback list is what \<^verbatim>\<open>compute_sparsity\<close>
  returns for one result. The outcome lists, call by call, the iteration for which a
  task was emitted, or \<open>None\<close> for an empty task list.
\<close>

fun run_generator ::
    "fb_state \<Rightarrow> result_id \<Rightarrow> (config list \<times> config list) list \<Rightarrow> py_error + int option list" where
  "run_generator s rid [] = Inr []"
| "run_generator s rid ((cur2o, com2o) # fbs) =
     (case generate_tasks s \<lparr>result_id = rid, current2origin_sparsity = cur2o,
                              compact2origin_sparsity = com2o\<rparr> of
        Inl e \<Rightarrow> Inl e
      | Inr (ts, s') \<Rightarrow>
          (case run_generator s' (case ts of [] \<Rightarrow> rid | t # _ \<Rightarrow> Tid (task_id t)) fbs of
             Inl e \<Rightarrow> Inl e
           | Inr emitted \<Rightarrow>
               Inr ((case ts of [] \<Rightarrow> None | _ # _ \<Rightarrow> Some (current_iteration s)) # emitted)))"

definition valid_sparsities :: "config list \<Rightarrow> bool" where
  "valid_sparsities cs = list_all (\<lambda>c. 0 \<le> total_sparsity c \<and> total_sparsity c < 1) cs"

text \<open>
  What the specification expects of \<open>n\<close> calls from iteration \<open>i\<close> on: one task for
  each of the iterations \<open>i..N\<close>, then the empty list.
\<close>

definition expected_run :: "int \<Rightarrow> int \<Rightarrow> nat \<Rightarrow> int option list" where
  "expected_run i N n = map Some (take n [i..N]) @ replicate (n - nat (N + 1 - i)) None"

text \<open>
  A whole run: the construction with the feedback for the origin result, then the
  executor's loop on the task that is pending. The first element of the outcome is for
  the construction's call.
\<close>

definition generator_run ::
    "schedule \<Rightarrow> int \<Rightarrow> config list \<Rightarrow> base_state \<Rightarrow> config list \<times> config list
       \<Rightarrow> (config list \<times> config list) list \<Rightarrow> py_error + int option list" where
  "generator_run sch N targets b origin_fb fbs =
     (case construct sch N targets b (fst origin_fb) (snd origin_fb) of
        Inl e \<Rightarrow> Inl e
      | Inr (pending, s) \<Rightarrow>
          (case run_generator s (case pending of [] \<Rightarrow> Origin | t # _ \<Rightarrow> Tid (task_id t)) fbs of
             Inl e \<Rightarrow> Inl e
           | Inr emitted \<Rightarrow>
               Inr ((case pending of
                       [] \<Rightarrow> None
                     | _ # _ \<Rightarrow> Some (current_iteration (function_based_init sch N targets b)))
                    # emitted)))"

text \<open>The result of a call names the origin or a registered task.\<close>

definition known_result :: "fb_state \<Rightarrow> task_result \<Rightarrow> bool" where
  "known_result s r =
     (case result_id r of Origin \<Rightarrow> True | Tid k \<Rightarrow> tasks s k \<noteq> None)"

section \<open>SimulatedAnnealingTaskGenerator: the search engine\<close>

text \<open>
  \<^verbatim>\<open>_sparsity_to_config_list\<close>: the sparsity values sorted ascending are zipped with
  the op names of the group in the order of ascending element count. Python's
  \<^verbatim>\<open>sorted\<close> is stable, as \<^const>\<open>sort_key\<close> is.
\<close>

definition sparsity_to_config_list ::
    "numel_table \<Rightarrow> real list \<Rightarrow> config \<Rightarrow> py_error + config list" where
  "sparsity_to_config_list wn sparsity c =
     (let sorted_sparsity = sort sparsity;
          names = map fst (filter (\<lambda>(k, _). k \<in> set (op_names c)) (sort_key snd wn))
      in if length sorted_sparsity \<noteq> length names then Inl (AssertionError [])
         else Inr (map (\<lambda>(sp, op_name). \<lparr>op_names = [op_name], total_sparsity = sp\<rparr>)
                    (zip sorted_sparsity names)))"

text \<open>
  The random source is a fixed stream of uniform draws from \<open>[0, 1)\<close> and a position in
  it; \<^verbatim>\<open>np.random.uniform(low, high, n)\<close> consumes \<open>n\<close> draws.
\<close>

type_synonym rng = "nat \<Rightarrow> real"

definition uniform :: "rng \<Rightarrow> nat \<Rightarrow> real \<Rightarrow> real \<Rightarrow> nat \<Rightarrow> real list" where
  "uniform g pos low high n = map (\<lambda>k. low + (high - low) * g k) [pos..<pos + n]"

text \<open>
  The acceptance test of the rejection sampling, \<^verbatim>\<open>x[0] >= 0 and x[-1] < 1\<close>;
  indexing an empty vector raises IndexError.
\<close>

definition feasible :: "real list \<Rightarrow> py_error + bool" where
  "feasible v = (case v of [] \<Rightarrow> Inl IndexError | x # _ \<Rightarrow> Inr (0 \<le> x \<and> last v < 1))"

text \<open>
  The \<^verbatim>\<open>while True\<close> loop of \<^verbatim>\<open>_init_config_sparsity\<close>. It has no bound: a result
  \<open>None\<close> of the model is a loop that never ends.
\<close>

partial_function (option) init_sample ::
    "rng \<Rightarrow> numel_table \<Rightarrow> real \<Rightarrow> string list \<Rightarrow> nat \<Rightarrow> (py_error + real list \<times> nat) option" where
  "init_sample g wn target names pos =
     (case rescale_sparsity wn (sort (uniform g pos 0 1 (length names))) target names of
        Inl e \<Rightarrow> Some (Inl e)
      | Inr r \<Rightarrow>
          (case r of
             None \<Rightarrow> init_sample g wn target names (pos + length names)
           | Some v \<Rightarrow>
               (case feasible v of
                  Inl e \<Rightarrow> Some (Inl e)
                | Inr ok \<Rightarrow>
                    if ok then Some (Inr (v, pos + length names))
                    else init_sample g wn target names (pos + length names))))"

definition init_config_sparsity ::
    "rng \<Rightarrow> numel_table \<Rightarrow> config \<Rightarrow> nat
       \<Rightarrow> (py_error + (config list \<times> real list) \<times> nat) option" where
  "init_config_sparsity g wn c pos =
     (if total_sparsity c = 0 then Some (Inr (([], []), pos))
      else case init_sample g wn (total_sparsity c) (op_names c) pos of
        None \<Rightarrow> None
      | Some (Inl e) \<Rightarrow> Some (Inl e)
      | Some (Inr (v, pos')) \<Rightarrow>
          (case sparsity_to_config_list wn v c of
             Inl e \<Rightarrow> Some (Inl e)
           | Inr cl \<Rightarrow> Some (Inr ((cl, v), pos'))))"

text \<open>
  \<^verbatim>\<open>_init_temp_config_list\<close>: the config entries of the groups are concatenated, the
  sparsity vectors are kept one per group.
\<close>

fun init_temp_config_list ::
    "rng \<Rightarrow> numel_table \<Rightarrow> config list \<Rightarrow> nat
       \<Rightarrow> (py_error + (config list \<times> real list list) \<times> nat) option" where
  "init_temp_config_list g wn [] pos = Some (Inr (([], []), pos))"
| "init_temp_config_list g wn (c # cs) pos =
     (case init_config_sparsity g wn c pos of
        None \<Rightarrow> None
      | Some (Inl e) \<Rightarrow> Some (Inl e)
      | Some (Inr ((sparsity_config, sparsity), pos')) \<Rightarrow>
          (case init_temp_config_list g wn cs pos' of
             None \<Rightarrow> None
           | Some (Inl e) \<Rightarrow> Some (Inl e)
           | Some (Inr ((cl, sl), pos'')) \<Rightarrow>
               Some (Inr ((sparsity_config @ cl, sparsity # sl), pos''))))"

text \<open>
  The \<^verbatim>\<open>while True\<close> loop of \<^verbatim>\<open>_update_with_perturbations\<close> for one group;
  \<^verbatim>\<open>np.clip(0, x, None)\<close> is the elementwise maximum of 0 and \<open>x\<close>.
\<close>

partial_function (option) perturb_sample ::
    "rng \<Rightarrow> numel_table \<Rightarrow> real \<Rightarrow> config \<Rightarrow> real list \<Rightarrow> nat
       \<Rightarrow> (py_error + (config list \<times> real list) \<times> nat) option" where
  "perturb_sample g wn magnitude c current_sparsity pos =
     (case rescale_sparsity wn
             (map (max 0) (map2 (+) current_sparsity
                (uniform g pos (- magnitude) magnitude (length current_sparsity))))
             (total_sparsity c) (op_names c) of
        Inl e \<Rightarrow> Some (Inl e)
      | Inr r \<Rightarrow>
          (case r of
             None \<Rightarrow> perturb_sample g wn magnitude c current_sparsity
                       (pos + length current_sparsity)
           | Some v \<Rightarrow>
               (case feasible v of
                  Inl e \<Rightarrow> Some (Inl e)
                | Inr ok \<Rightarrow>
                    if ok then
                      (case sparsity_to_config_list wn v c of
                         Inl e \<Rightarrow> Some (Inl e)
                       | Inr cl \<Rightarrow> Some (Inr ((cl, v), pos + length current_sparsity)))
                    else perturb_sample g wn magnitude c current_sparsity
                           (pos + length current_sparsity))))"

definition perturb_group ::
    "rng \<Rightarrow> numel_table \<Rightarrow> real \<Rightarrow> config \<Rightarrow> real list \<Rightarrow> nat
       \<Rightarrow> (py_error + (config list \<times> real list) \<times> nat) option" where
  "perturb_group g wn magnitude c current_sparsity pos =
     (if length current_sparsity = 0 then Some (Inr (([], []), pos))
      else perturb_sample g wn magnitude c current_sparsity pos)"

fun perturb_groups ::
    "rng \<Rightarrow> numel_table \<Rightarrow> real \<Rightarrow> config list \<Rightarrow> real list list \<Rightarrow> nat
       \<Rightarrow> (py_error + (config list \<times> real list list) \<times> nat) option" where
  "perturb_groups g wn magnitude (c # cs) (current_sparsity # rest) pos =
     (case perturb_group g wn magnitude c current_sparsity pos of
        None \<Rightarrow> None
      | Some (Inl e) \<Rightarrow> Some (Inl e)
      | Some (Inr ((sparsity_config, sparsity), pos')) \<Rightarrow>
          (case perturb_groups g wn magnitude cs rest pos' of
             None \<Rightarrow> None
           | Some (Inl e) \<Rightarrow> Some (Inl e)
           | Some (Inr ((cl, sl), pos'')) \<Rightarrow>
               Some (Inr ((sparsity_config @ cl, sparsity # sl), pos''))))"
| "perturb_groups g wn magnitude _ _ pos = Some (Inr (([], []), pos))"

text \<open>The state of the annealing generator.\<close>

record sa_state = base_state +
  start_temperature :: real
  current_temperature :: real
  stop_temperature :: real
  cool_down_rate :: real
  perturbation_magnitude :: real
  weights_numel :: numel_table
  masked_rate :: rate_table
  target_sparsity_list :: "config list"
  temp_config_list :: "config list option"
  temp_sparsity_list :: "real list list"
  current_sparsity_list :: "real list list option"
  current_score :: "real option"
  rng_pos :: nat

text \<open>
  The constructor: \<^verbatim>\<open>get_model_weights_numel\<close> and \<^verbatim>\<open>config_list_canonical\<close>
  inspect the model and are outside this development; their results are arguments.
\<close>

definition sa_init ::
    "numel_table \<Rightarrow> rate_table \<Rightarrow> config list \<Rightarrow> real \<Rightarrow> real \<Rightarrow> real \<Rightarrow> real
       \<Rightarrow> base_state \<Rightarrow> py_error + sa_state" where
  "sa_init wn mr canonical start stop rate magnitude b =
     (case adjust_target_sparsity wn mr canonical of
        Inl e \<Rightarrow> Inl e
      | Inr targets \<Rightarrow>
          Inr \<lparr>task_id_candidate = task_id_candidate b, tasks = tasks b,
               start_temperature = start, current_temperature = start,
               stop_temperature = stop, cool_down_rate = rate,
               perturbation_magnitude = magnitude,
               weights_numel = wn, masked_rate = mr, target_sparsity_list = targets,
               temp_config_list = None, temp_sparsity_list = [],
               current_sparsity_list = None, current_score = None, rng_pos = 0\<rparr>)"

definition update_with_perturbations :: "rng \<Rightarrow> sa_state \<Rightarrow> (py_error + sa_state) option" where
  "update_with_perturbations g s =
     (if start_temperature s = 0 then Some (Inl ZeroDivisionError)
      else case current_sparsity_list s of
        None \<Rightarrow> Some (Inl TypeError)
      | Some current \<Rightarrow>
          (case perturb_groups g (weights_numel s)
                  (current_temperature s / start_temperature s * perturbation_magnitude s)
                  (target_sparsity_list s) current (rng_pos s) of
             None \<Rightarrow> None
           | Some (Inl e) \<Rightarrow> Some (Inl e)
           | Some (Inr ((cl, sl), pos)) \<Rightarrow>
               Some (Inr (s\<lparr>temp_config_list := Some cl, temp_sparsity_list := sl,
                            rng_pos := pos\<rparr>))))"

text \<open>
  The acceptance test by the random draw. The score difference is a numpy float, so at
  temperature 0 the quotient is \<open>-inf\<close> or NaN instead of an exception, the probability
  is 0 or NaN, and the comparison with the draw is false.
\<close>

definition draw_accepts :: "real \<Rightarrow> real \<Rightarrow> real \<Rightarrow> bool" where
  "draw_accepts temperature delta_E u =
     (if temperature = 0 then False else u < exp (- 1 * delta_E / temperature))"

text \<open>
  The update of the current assignment at the start of \<^verbatim>\<open>generate_tasks\<close>, given the
  score of the finished task: the first score is adopted as it is; afterwards the
  candidate is accepted when the score is strictly better or the draw says so. The
  \<^verbatim>\<open>or\<close> takes the draw only when the score is not better. A score of \<^verbatim>\<open>None\<close>
  raises TypeError in the subtraction.
\<close>

definition accept_candidate :: "sa_state \<Rightarrow> real option \<Rightarrow> sa_state" where
  "accept_candidate s new_score =
     s\<lparr>current_score := new_score,
       current_sparsity_list := Some (temp_sparsity_list s),
       current_temperature := current_temperature s * cool_down_rate s\<rparr>"

definition anneal_step :: "rng \<Rightarrow> sa_state \<Rightarrow> real option \<Rightarrow> py_error + sa_state" where
  "anneal_step g s new_score =
     (case current_sparsity_list s of
        None \<Rightarrow>
          Inr (s\<lparr>current_sparsity_list := Some (temp_sparsity_list s),
                 current_score := new_score\<rparr>)
      | Some _ \<Rightarrow>
          (case new_score of
             None \<Rightarrow> Inl TypeError
           | Some sc \<Rightarrow>
               (case current_score s of
                  None \<Rightarrow> Inl TypeError
                | Some cur \<Rightarrow>
                    if cur < sc then Inr (accept_candidate s new_score)
                    else if draw_accepts (current_temperature s) \<bar>sc - cur\<bar> (g (rng_pos s))
                    then Inr (accept_candidate (s\<lparr>rng_pos := rng_pos s + 1\<rparr>) new_score)
                    else Inr (s\<lparr>rng_pos := rng_pos s + 1\<rparr>))))"

text \<open>
  The tail of \<^verbatim>\<open>generate_tasks\<close>: recover the real sparsity of the candidate, wrap it
  in a task and register the task. The model and masks of every task are the origin
  ones.
\<close>

definition emit_task :: "sa_state \<Rightarrow> py_error + (task list \<times> sa_state)" where
  "emit_task s =
     (case temp_config_list s of
        None \<Rightarrow> Inl TypeError
      | Some cl \<Rightarrow>
          (case recover_real_sparsity (masked_rate s) cl of
             Inl e \<Rightarrow> Inl e
           | Inr new_config_list \<Rightarrow>
               (let task = \<lparr>task_id = task_id_candidate s, result_of = Origin,
                             config_list = new_config_list, current2origin = None,
                             score = None\<rparr>
                in Inr ([task],
                     s\<lparr>tasks := (tasks s)(task_id_candidate s \<mapsto> task),
                       task_id_candidate := task_id_candidate s + 1\<rparr>))))"

text \<open>
  \<^verbatim>\<open>SimulatedAnnealingTaskGenerator.generate_tasks\<close>. The score is read from the
  registered task of the result (KeyError for an id that is not registered, as
  \<^verbatim>\<open>'origin'\<close> is not).
\<close>

definition sa_generate_tasks ::
    "rng \<Rightarrow> sa_state \<Rightarrow> result_id \<Rightarrow> (py_error + task list \<times> sa_state) option" where
  "sa_generate_tasks g s rid =
     (case temp_config_list s of
        None \<Rightarrow>
          (case init_temp_config_list g (weights_numel s) (target_sparsity_list s) (rng_pos s) of
             None \<Rightarrow> None
           | Some (Inl e) \<Rightarrow> Some (Inl e)
           | Some (Inr ((cl, sl), pos)) \<Rightarrow>
               Some (emit_task (s\<lparr>temp_config_list := Some cl, temp_sparsity_list := sl,
                                  rng_pos := pos\<rparr>)))
      | Some _ \<Rightarrow>
          (case (case rid of Origin \<Rightarrow> None | Tid i \<Rightarrow> tasks s i) of
             None \<Rightarrow> Some (Inl (KeyError (case rid of Origin \<Rightarrow> StrKey ''origin''
                                            | Tid i \<Rightarrow> IntKey i)))
           | Some t \<Rightarrow>
               (case anneal_step g s (score t) of
                  Inl e \<Rightarrow> Some (Inl e)
                | Inr s1 \<Rightarrow>
                    if current_temperature s1 < stop_temperature s1 then Some (Inr ([], s1))
                    else (case update_with_perturbations g s1 of
                            None \<Rightarrow> None
                          | Some (Inl e) \<Rightarrow> Some (Inl e)
                          | Some (Inr s2) \<Rightarrow> Some (emit_task s2)))))"





text \<open>A random source for the examples: every draw is 1/2.\<close>

definition half_rng :: rng where
  "half_rng k = 1 / 2"

text \<open>
  The items of \<^verbatim>\<open>weights_numel\<close> that belong to a group, in the order of ascending
  element count: the order in which \<^verbatim>\<open>_sparsity_to_config_list\<close> names the ops.
\<close>

definition ranked :: "numel_table \<Rightarrow> config \<Rightarrow> (string \<times> int) list" where
  "ranked wn c = filter (\<lambda>(k, _). k \<in> set (op_names c)) (sort_key snd wn)"

text \<open>
  The count of pruned elements when the i-th smallest weight size meets the i-th
  smallest sparsity value, each product truncated as \<^verbatim>\<open>int\<close> does.
\<close>

definition rank_paired_pruned :: "int list \<Rightarrow> real list \<Rightarrow> int" where
  "rank_paired_pruned ws sp =
     (\<Sum>i<length sp. py_int (real_of_int (sort ws ! i) * sort sp ! i))"

text \<open>
  Groups with target sparsity 0: their sparsity vectors are empty (in the candidate and
  in the current assignment), and a config entry belongs to a group when it names one of
  the group's ops. Groups of target 0 are apart from the others when they share no op
  with them, as canonical groups do.
\<close>

definition zero_groups_empty :: "config list \<Rightarrow> real list list \<Rightarrow> bool" where
  "zero_groups_empty targets sl = list_all2 (\<lambda>c v. total_sparsity c = 0 \<longrightarrow> v = []) targets sl"

definition zero_kept :: "sa_state \<Rightarrow> bool" where
  "zero_kept s =
     ((temp_config_list s \<noteq> None \<longrightarrow>
         zero_groups_empty (target_sparsity_list s) (temp_sparsity_list s)) \<and>
      (case current_sparsity_list s of
         None \<Rightarrow> True
       | Some current \<Rightarrow> zero_groups_empty (target_sparsity_list s) current))"

definition from_nonzero_group :: "config list \<Rightarrow> config \<Rightarrow> bool" where
  "from_nonzero_group targets e =
     (\<exists>c\<in>set targets. total_sparsity c \<noteq> 0 \<and> (\<exists>n\<in>set (op_names c). op_names e = [n]))"

definition entry_of_group :: "config \<Rightarrow> config \<Rightarrow> bool" where
  "entry_of_group c e = (\<exists>n\<in>set (op_names c). op_names e = [n])"

definition zero_groups_apart :: "config list \<Rightarrow> bool" where
  "zero_groups_apart targets =
     (\<forall>c\<in>set targets. \<forall>c'\<in>set targets.
        total_sparsity c = 0 \<and> total_sparsity c' \<noteq> 0 \<longrightarrow>
        set (op_names c) \<inter> set (op_names c') = {})"

section \<open>The command decoder\<close>

text \<open>
  \<^verbatim>\<open>str.title\<close> on ASCII text: a cased character is put in upper case after an uncased
  one (or at the start) and in lower case after a cased one.
\<close>

definition lower_letters :: string where
  "lower_letters = ''abcdefghijklmnopqrstuvwxyz''"

definition upper_letters :: string where
  "upper_letters = ''ABCDEFGHIJKLMNOPQRSTUVWXYZ''"

definition to_upper :: "char \<Rightarrow> char" where
  "to_upper c = (case map_of (zip lower_letters upper_letters) c of Some u \<Rightarrow> u | None \<Rightarrow> c)"

definition to_lower :: "char \<Rightarrow> char" where
  "to_lower c = (case map_of (zip upper_letters lower_letters) c of Some l \<Rightarrow> l | None \<Rightarrow> c)"

fun title_from :: "bool \<Rightarrow> string \<Rightarrow> string" where
  "title_from previous_is_cased [] = []"
| "title_from previous_is_cased (c # cs) =
     (if c \<in> set lower_letters then
        (if previous_is_cased then c else to_upper c) # title_from True cs
      else if c \<in> set upper_letters then
        (if previous_is_cased then to_lower c else c) # title_from True cs
      else c # title_from False cs)"

definition title :: "string \<Rightarrow> string" where
  "title word = title_from False word"

text \<open>
  \<^verbatim>\<open>name.split('_')\<close> always has a first word; the result is that word and the list
  of the others.
\<close>

fun split_words :: "char \<Rightarrow> string \<Rightarrow> string \<times> string list" where
  "split_words sep [] = ([], [])"
| "split_words sep (c # cs) =
     (case split_words sep cs of
        (w, ws) \<Rightarrow> if c = sep then ([], w # ws) else (c # w, ws))"

text \<open>\<^verbatim>\<open>_camel_case\<close>: the first word as it is, the others in title case.\<close>

definition camel_case :: "string \<Rightarrow> string" where
  "camel_case name =
     (case split_words CHR ''_'' name of (w, ws) \<Rightarrow> w @ concat (map title ws))"

text \<open>
  The module \<^verbatim>\<open>base.py\<close> as Python runs it. A module body is a sequence of
  statements; an import and a \<^verbatim>\<open>def\<close> bind names, a \<^verbatim>\<open>class\<close> statement first
  evaluates its base classes and raises NameError for a base that is not bound. The body
  of a function resolves its global names only when it runs.
\<close>

datatype stmt = FromImport "string list" | Def string | Class string "string list"

fun exec_module :: "stmt list \<Rightarrow> string list \<Rightarrow> py_error + string list" where
  "exec_module [] bound = Inr bound"
| "exec_module (FromImport names # rest) bound = exec_module rest (bound @ names)"
| "exec_module (Def name # rest) bound = exec_module rest (bound @ [name])"
| "exec_module (Class name bases # rest) bound =
     (case find (\<lambda>b. b \<notin> set bound) bases of
        Some b \<Rightarrow> Inl (NameError b)
      | None \<Rightarrow> exec_module rest (bound @ [name]))"

text \<open>
  The statements of \<^verbatim>\<open>base.py\<close> in their order: its only import is
  \<^verbatim>\<open>from __future__ import annotations\<close>, and the third class names the base
  \<^verbatim>\<open>command\<close>.
\<close>

definition base_py :: "stmt list" where
  "base_py =
     [FromImport [''annotations''],
      Def ''decode_command'',
      Class ''Command'' [],
      Class ''ToAlgoCommand'' [''Command''],
      Class ''FromAlgoCommand'' [''command''],
      Def ''_camel_case'',
      Def ''_find_command_class'']"

text \<open>Every name the statements of a module bind, were each of them to succeed.\<close>

fun module_names :: "stmt list \<Rightarrow> string list" where
  "module_names [] = []"
| "module_names (FromImport names # rest) = names @ module_names rest"
| "module_names (Def name # rest) = name # module_names rest"
| "module_names (Class name bases # rest) = name # module_names rest"

text \<open>
  \<^verbatim>\<open>Command._load\<close>, run with the global names \<open>g\<close> of its module. The JSON object is
  an association list of keys and values of any type \<open>'v\<close>; \<open>field_names\<close> is what
  \<^verbatim>\<open>fields(cls)\<close> gives when \<^verbatim>\<open>fields\<close> is bound; the object built is the map of the
  attributes set, where \<open>Some None\<close> is an attribute set to \<^verbatim>\<open>None\<close>; the logger's
  output is a list of entries. The names \<^verbatim>\<open>fields\<close>, \<^verbatim>\<open>_camel_case\<close> and
  \<^verbatim>\<open>_logger\<close> are looked up where the body uses them, and \<^verbatim>\<open>dict.pop\<close> raises
  KeyError when the key is absent.
\<close>

datatype 'v log_entry = MissingField string | UnrecognizedFields "(string \<times> 'v) list"

definition py_pop ::
    "string \<Rightarrow> (string \<times> 'v) list \<Rightarrow> py_error + ('v \<times> (string \<times> 'v) list)" where
  "py_pop k data =
     (case map_of data k of
        None \<Rightarrow> Inl (KeyError (StrKey k))
      | Some v \<Rightarrow> Inr (v, filter (\<lambda>(k', _). k' \<noteq> k) data))"

fun load_fields ::
    "string list \<Rightarrow> string list \<Rightarrow> (string \<times> 'v) list \<Rightarrow> (string \<rightharpoonup> 'v option)
       \<Rightarrow> 'v log_entry list
       \<Rightarrow> py_error + ((string \<rightharpoonup> 'v option) \<times> (string \<times> 'v) list \<times> 'v log_entry list)" where
  "load_fields g [] data obj lg = Inr (obj, data, lg)"
| "load_fields g (field # rest) data obj lg =
     (if ''_camel_case'' \<notin> set g then Inl (NameError ''_camel_case'')
      else let camel_key = camel_case field in
        if map_of data camel_key = None
        then (if ''_logger'' \<notin> set g then Inl (NameError ''_logger'')
              else load_fields g rest data (obj(field \<mapsto> None)) (lg @ [MissingField field]))
        else (case py_pop camel_key data of
                Inl e \<Rightarrow> Inl e
              | Inr (v, data') \<Rightarrow> load_fields g rest data' (obj(field \<mapsto> Some v)) lg))"

definition load ::
    "string list \<Rightarrow> string list \<Rightarrow> (string \<times> 'v) list
       \<Rightarrow> py_error + ((string \<rightharpoonup> 'v option) \<times> 'v log_entry list)" where
  "load g field_names data =
     (if ''fields'' \<notin> set g then Inl (NameError ''fields'')
      else case load_fields g field_names data Map.empty [] of
        Inl e \<Rightarrow> Inl e
      | Inr (obj, leftover, lg) \<Rightarrow>
          if leftover \<noteq> [] then
            (if ''_logger'' \<notin> set g then Inl (NameError ''_logger'')
             else Inr (obj, lg @ [UnrecognizedFields leftover]))
          else Inr (obj, lg))"

section \<open>Properties of the target adjustment and of the rescale\<close>

lemma scale_totals_sums:
  "scale_totals ws ss a b =
     (a + sum_list (map fst (zip ws ss)),
      b + (\<Sum>(w, s) \<leftarrow> zip ws ss. py_int (real_of_int w * s)))"
  by (induction ws ss a b rule: scale_totals.induct) simp_all

lemma lookup_numel_length: "lookup_numel wn ns = Inr ws \<Longrightarrow> length ws = length ns"
  by (induction ns arbitrary: ws) (auto split: option.splits sum.splits)

lemma py_int_floor: "0 \<le> x \<Longrightarrow> py_int x = \<lfloor>x\<rfloor>"
  by (simp add: py_int_def)

lemma sum_py_int_floor:
  "\<forall>w\<in>set ws. 0 \<le> w \<Longrightarrow> \<forall>f\<in>set fr. 0 \<le> f \<Longrightarrow>
   (\<Sum>(w, s) \<leftarrow> zip ws fr. py_int (real_of_int w * s)) = pruned_elements ws fr"
  unfolding pruned_elements_def
  by (induction ws fr rule: list_induct2') (simp_all add: py_int_floor)

lemma map_fst_zip_eq: "length xs = length ys \<Longrightarrow> map fst (zip xs ys) = xs"
  by (induction xs ys rule: list_induct2) simp_all

lemma pruned_nonzero_total_pos:
  "\<forall>w\<in>set ws. 0 < w \<Longrightarrow> pruned_elements ws fr \<noteq> 0 \<Longrightarrow> 0 < sum_list ws"
  unfolding pruned_elements_def
  by (cases ws) (auto intro!: add_pos_nonneg sum_list_nonneg simp: less_imp_le)

lemma rescale_sparsity_nonneg:
  assumes len: "length fr = length names"
    and look: "lookup_numel wn names = Inr ws"
    and wpos: "\<forall>w\<in>set ws. 0 < w"
    and fnn: "\<forall>f\<in>set fr. 0 \<le> f"
  shows "rescale_sparsity wn fr t names =
     Inr (if pruned_elements (sort ws) (sort fr) = 0 then None
          else Some (map (\<lambda>f. f * (t / (real_of_int (pruned_elements (sort ws) (sort fr))
                                         / real_of_int (total_elements (sort ws)))))
                       (sort fr)))"
proof -
  have l: "length (sort ws) = length (sort fr)"
    using len lookup_numel_length [OF look] by simp
  have w': "\<forall>w\<in>set (sort ws). 0 \<le> w" "\<forall>w\<in>set (sort ws). 0 < w" using wpos by auto
  have f': "\<forall>f\<in>set (sort fr). 0 \<le> f" using fnn by simp
  have tot: "scale_totals (sort ws) (sort fr) 0 0 =
      (total_elements (sort ws), pruned_elements (sort ws) (sort fr))"
    by (simp add: scale_totals_sums sum_py_int_floor [OF w'(1) f'] map_fst_zip_eq [OF l]
        total_elements_def)
  have nz: "pruned_elements (sort ws) (sort fr) \<noteq> 0 \<Longrightarrow> total_elements (sort ws) \<noteq> 0"
    using pruned_nonzero_total_pos [OF w'(2)] by (fastforce simp: total_elements_def)
  show ?thesis
    using nz by (simp add: rescale_sparsity_def len look tot Let_def)
qed

lemma exact_pruned_scale: "exact_pruned ws (map (\<lambda>f. f * c) fr) = c * exact_pruned ws fr"
  unfolding exact_pruned_def
  by (induction ws fr rule: list_induct2') (simp_all add: algebra_simps)

lemma pruned_le_exact: "real_of_int (pruned_elements ws fr) \<le> exact_pruned ws fr"
  unfolding exact_pruned_def pruned_elements_def
  by (induction ws fr rule: list_induct2') (simp_all add: add_mono)

lemma pruned_nonneg:
  "\<forall>w\<in>set ws. 0 \<le> w \<Longrightarrow> \<forall>f\<in>set fr. 0 \<le> f \<Longrightarrow> 0 \<le> pruned_elements ws fr"
  unfolding pruned_elements_def
  by (induction ws fr rule: list_induct2') simp_all

text \<open>
  For one op with prior masked fraction \<open>0 < m < 1\<close> and a positive weight count, the
  construction-time adjustment subtracts the mask rate: \<open>t' = max 0 (t - m)\<close>.
\<close>

lemma adjust_single_op:
  assumes m: "0 < m" "m < 1" and w: "0 < w"
  shows "adjust_target_sparsity [(n, w)] [(n, m)] [\<lparr>op_names = [n], total_sparsity = t\<rparr>] =
           Inr [\<lparr>op_names = [n], total_sparsity = max 0 (t - m)\<rparr>]"
proof -
  define P where "P = m * real_of_int w / (1 - m)"
  have nz: "1 / m - 1 \<noteq> 0" using m by (simp add: field_simps)
  have inv: "1 / m - 1 = (1 - m) / m" using m by (simp add: field_simps)
  have an: "adjust_numel [(n, w)] [(n, m)] [n] 0 0 = Inr (w, P)"
    using m nz by (simp add: inv P_def)
  have den: "P + real_of_int w = real_of_int w / (1 - m)"
    using m by (simp add: P_def field_simps)
  have dnz: "P + real_of_int w \<noteq> 0"
    using m w by (simp add: den)
  have frac: "P / (P + real_of_int w) = m"
    unfolding den using m w by (simp add: P_def)
  have a: "adjust_config [(n, w)] [(n, m)] \<lparr>op_names = [n], total_sparsity = t\<rparr> =
      Inr \<lparr>op_names = [n], total_sparsity = max 0 (t - m)\<rparr>"
    using dnz by (simp add: adjust_config_def an frac del: adjust_numel.simps)
  show ?thesis
    using a by (simp add: adjust_target_sparsity_def)
qed

text \<open>
  The export-time recovery \<open>m + s * (1 - m)\<close> gives the target \<open>t\<close> back from
  \<open>(t - m) / (1 - m)\<close>, the target relative to the remaining weights; it is the inverse of
  that rescaling, not of the subtraction.
\<close>

lemma recover_inverts_rescaling:
  assumes "m \<noteq> 1"
  shows "recover_config [(n, m)] \<lparr>op_names = [n], total_sparsity = (t - m) / (1 - m)\<rparr>
     = Inr \<lparr>op_names = [n], total_sparsity = t\<rparr>"
  using assms by (simp add: recover_config_def field_simps)

text \<open>
  C1: for one op with a prior masked fraction, the construction-time adjustment followed
  by the export-time recovery is claimed to give the target back. The engine does not
  do so. One op with 10 remaining weights and prior mask rate 1/2, target 3/4: the
  constructor adjusts the target to 1/4; on the first call, with the draw 1/2, the
  candidate 1/2 is rescaled to 1/4 and the exported config gives the op the sparsity
  \<open>1/2 + 1/4 * (1 - 1/2) = 5/8\<close>, not 3/4.
\<close>

theorem prior_mask_target_not_recovered:
  "sa_init [(''fc1'', 10)] [(''fc1'', 1/2)] [\<lparr>op_names = [''fc1''], total_sparsity = 3/4\<rparr>]
       100 20 (9/10) (7/20) \<lparr>task_id_candidate = 0, tasks = Map.empty\<rparr>
     = Inr \<lparr>task_id_candidate = 0, tasks = Map.empty,
            start_temperature = 100, current_temperature = 100, stop_temperature = 20,
            cool_down_rate = 9/10, perturbation_magnitude = 7/20,
            weights_numel = [(''fc1'', 10)], masked_rate = [(''fc1'', 1/2)],
            target_sparsity_list = [\<lparr>op_names = [''fc1''], total_sparsity = 1/4\<rparr>],
            temp_config_list = None, temp_sparsity_list = [],
            current_sparsity_list = None, current_score = None, rng_pos = 0\<rparr>
   \<and> sa_generate_tasks half_rng
       \<lparr>task_id_candidate = 0, tasks = Map.empty,
            start_temperature = 100, current_temperature = 100, stop_temperature = 20,
            cool_down_rate = 9/10, perturbation_magnitude = 7/20,
            weights_numel = [(''fc1'', 10)], masked_rate = [(''fc1'', 1/2)],
            target_sparsity_list = [\<lparr>op_names = [''fc1''], total_sparsity = 1/4\<rparr>],
            temp_config_list = None, temp_sparsity_list = [],
            current_sparsity_list = None, current_score = None, rng_pos = 0\<rparr> Origin
     = Some (Inr ([\<lparr>task_id = 0, result_of = Origin,
                     config_list = [\<lparr>op_names = [''fc1''], total_sparsity = 5/8\<rparr>],
                     current2origin = None, score = None\<rparr>],
          \<lparr>task_id_candidate = 1,
            tasks = [0 \<mapsto> \<lparr>task_id = 0, result_of = Origin,
                     config_list = [\<lparr>op_names = [''fc1''], total_sparsity = 5/8\<rparr>],
                     current2origin = None, score = None\<rparr>],
            start_temperature = 100, current_temperature = 100, stop_temperature = 20,
            cool_down_rate = 9/10, perturbation_magnitude = 7/20,
            weights_numel = [(''fc1'', 10)], masked_rate = [(''fc1'', 1/2)],
            target_sparsity_list = [\<lparr>op_names = [''fc1''], total_sparsity = 1/4\<rparr>],
            temp_config_list = Some [\<lparr>op_names = [''fc1''], total_sparsity = 1/4\<rparr>],
            temp_sparsity_list = [[1/4]],
            current_sparsity_list = None, current_score = None, rng_pos = 1\<rparr>))"
proof -
  have sample: "init_sample half_rng [(''fc1'', 10)] (1/4) [''fc1''] 0 = Some (Inr ([1/4], 1))"
    by (subst init_sample.simps)
       (simp add: uniform_def half_rng_def rescale_sparsity_def py_int_def feasible_def)
  have adj: "adjust_target_sparsity [(''fc1'', 10)] [(''fc1'', 1/2)]
       [\<lparr>op_names = [''fc1''], total_sparsity = 3/4\<rparr>]
     = Inr [\<lparr>op_names = [''fc1''], total_sparsity = 1/4\<rparr>]"
    using adjust_single_op [of "1/2" 10 "''fc1''" "3/4"] by simp
  show ?thesis
    by (simp add: sa_init_def adj sa_generate_tasks_def
        init_config_sparsity_def sample sparsity_to_config_list_def emit_task_def
        recover_config_def Let_def)
qed

text \<open>
  C2: for a candidate fraction vector (fractions are non-negative: the callers draw them
  from \<open>[0, 1)\<close> or clip them at 0) and positive weight sizes, \<^verbatim>\<open>_rescale_sparsity\<close>
  returns \<^verbatim>\<open>None\<close> exactly when the floored pruned-element count of the sorted
  vectors is 0, and otherwise the sorted fraction vector times
  \<open>target / (pruned_elements / total_elements)\<close>.
\<close>

theorem rescale_sparsity_spec:
  assumes "length fr = length names"
    and "lookup_numel wn names = Inr ws"
    and "\<forall>w\<in>set ws. 0 < w"
    and "\<forall>f\<in>set fr. 0 \<le> f"
    and "0 < t" and "t < 1"
  shows "(rescale_sparsity wn fr t names = Inr None
            \<longleftrightarrow> pruned_elements (sort ws) (sort fr) = 0) \<and>
         (pruned_elements (sort ws) (sort fr) \<noteq> 0 \<longrightarrow>
            rescale_sparsity wn fr t names =
              Inr (Some (map (\<lambda>f. f * (t / (real_of_int (pruned_elements (sort ws) (sort fr))
                                              / real_of_int (total_elements (sort ws)))))
                          (sort fr))))"
  using rescale_sparsity_nonneg [OF assms(1-4), of t] by simp

theorem rescale_sparsity_spec_witness:
  "rescale_sparsity [(''conv1'', 4), (''fc1'', 3)] [3/4, 1/2] (1/2) [''conv1'', ''fc1'']
     = Inr (Some [7/16, 21/32]) \<and>
   rescale_sparsity [(''conv1'', 4), (''fc1'', 3)] [1/8, 1/8] (1/2) [''conv1'', ''fc1'']
     = Inr None"
  using rescale_sparsity_spec
      [of "[3/4, 1/2]" "[''conv1'', ''fc1'']" "[(''conv1'', 4), (''fc1'', 3)]" "[4, 3]" "1/2"]
    rescale_sparsity_spec
      [of "[1/8, 1/8]" "[''conv1'', ''fc1'']" "[(''conv1'', 4), (''fc1'', 3)]" "[4, 3]" "1/2"]
  by (simp add: pruned_elements_def total_elements_def)

text \<open>
  C7 (as stated): whenever the floored pruned-element count is positive, the weighted
  pruned fraction of the rescaled vector equals the target. It does not: one op of 3
  elements with candidate fraction 1/2 has a floored count of 1, the scale for the
  target 1/2 is 3/2, and the rescaled vector [3/4] prunes the fraction 3/4, not 1/2.
\<close>

theorem rescale_misses_target:
  "pruned_elements (sort [3]) (sort [1/2]) = 1 \<and>
   rescale_sparsity [(''fc1'', 3)] [1/2] (1/2) [''fc1''] = Inr (Some [3/4]) \<and>
   weighted_fraction (sort [3]) [3/4] = 3/4 \<and>
   weighted_fraction (sort [3]) [3/4] \<noteq> 1/2"
  by (simp add: rescale_sparsity_def py_int_def pruned_elements_def weighted_fraction_def
      exact_pruned_def total_elements_def)

text \<open>
  C7 (amended): whenever the floored pruned-element count is positive, the weighted
  pruned fraction of the rescaled vector equals the target times the ratio of the
  pruned-element count without the floor to the floored count; it is at least the
  target (for a non-negative target) and equals the target when the floor truncates
  nothing.
\<close>

theorem rescale_weighted_fraction:
  assumes len: "length fr = length names"
    and look: "lookup_numel wn names = Inr ws"
    and wpos: "\<forall>w\<in>set ws. 0 < w"
    and fnn: "\<forall>f\<in>set fr. 0 \<le> f"
    and pos: "pruned_elements (sort ws) (sort fr) \<noteq> 0"
  shows "\<exists>v. rescale_sparsity wn fr t names = Inr (Some v) \<and>
     weighted_fraction (sort ws) v =
       t * exact_pruned (sort ws) (sort fr) / real_of_int (pruned_elements (sort ws) (sort fr)) \<and>
     (0 \<le> t \<longrightarrow> t \<le> weighted_fraction (sort ws) v) \<and>
     (exact_pruned (sort ws) (sort fr) = real_of_int (pruned_elements (sort ws) (sort fr))
        \<longrightarrow> weighted_fraction (sort ws) v = t)"
proof -
  let ?P = "real_of_int (pruned_elements (sort ws) (sort fr))"
  let ?E = "exact_pruned (sort ws) (sort fr)"
  let ?T = "real_of_int (total_elements (sort ws))"
  let ?v = "map (\<lambda>f. f * (t / (?P / ?T))) (sort fr)"
  have w': "\<forall>w\<in>set (sort ws). 0 \<le> w" "\<forall>w\<in>set (sort ws). 0 < w" using wpos by auto
  have f': "\<forall>f\<in>set (sort fr). 0 \<le> f" using fnn by simp
  have r: "rescale_sparsity wn fr t names = Inr (Some ?v)"
    using rescale_sparsity_nonneg [OF len look wpos fnn, of t] pos by simp
  have Ppos: "0 < ?P" using pruned_nonneg [OF w'(1) f'] pos by simp
  have Tpos: "0 < ?T"
    using pruned_nonzero_total_pos [OF w'(2) pos] by (simp add: total_elements_def)
  have PE: "?P \<le> ?E" by (rule pruned_le_exact)
  have wf: "weighted_fraction (sort ws) ?v = t * ?E / ?P"
    unfolding weighted_fraction_def exact_pruned_scale
    using Ppos Tpos by (simp add: field_simps)
  have ge: "t \<le> t * ?E / ?P" if "0 \<le> t"
  proof -
    have "t * ?P \<le> t * ?E" using that PE by (rule mult_left_mono [rotated])
    then show ?thesis using Ppos by (simp add: field_simps)
  qed
  have eq: "t * ?E / ?P = t" if "?E = ?P" using that Ppos by simp
  show ?thesis using r wf ge eq by auto
qed

theorem rescale_weighted_fraction_witness:
  "\<exists>v. rescale_sparsity [(''conv1'', 4), (''fc1'', 3)] [1/2, 1/2] (1/2) [''fc1'', ''conv1'']
          = Inr (Some v) \<and>
       weighted_fraction [3, 4] v = 7 / 12 \<and> 1 / 2 \<le> weighted_fraction [3, 4] v"
  using rescale_weighted_fraction
      [of "[1/2, 1/2]" "[''fc1'', ''conv1'']" "[(''conv1'', 4), (''fc1'', 3)]" "[3, 4]" "1/2"]
  by (auto simp: pruned_elements_def exact_pruned_def)

section \<open>Properties of the function-based generators\<close>

lemma ori_sparsity_cumulative:
  assumes "N \<noteq> 0" and "sch = LotteryTicket \<longrightarrow> T < 1"
  shows "ori_sparsity sch N i T = Inr (PyFloat (cumulative_target sch i N T))"
  using assms
  by (cases sch) (auto simp: ori_sparsity_def cumulative_target_def py_float_pow_def Let_def)

lemma group_config_increment:
  assumes "N \<noteq> 0" and "sch = LotteryTicket \<longrightarrow> total_sparsity t < 1" and "total_sparsity mo \<noteq> 1"
  shows "group_config sch N i t mo =
     (if in_unit (group_increment sch i N t mo)
      then Inr (t\<lparr>total_sparsity := group_increment sch i N t mo\<rparr>)
      else Inl (AssertionError [group_increment sch i N t mo,
                  cumulative_target sch i N (total_sparsity t), total_sparsity mo]))"
  using assms
  by (simp add: group_config_def ori_sparsity_cumulative incremental_sparsity_def Let_def
      group_increment_def in_unit_def)

lemma generate_config_list_ok:
  assumes "N \<noteq> 0"
    and "sch = LotteryTicket \<longrightarrow> (\<forall>t\<in>set targets. total_sparsity t < 1)"
    and "\<forall>mo\<in>set mos. total_sparsity mo \<noteq> 1"
    and "\<forall>(t, mo)\<in>set (zip targets mos). in_unit (group_increment sch i N t mo)"
  shows "generate_config_list sch N i targets mos =
     Inr (map (\<lambda>(t, mo). t\<lparr>total_sparsity := group_increment sch i N t mo\<rparr>) (zip targets mos))"
  using assms
  by (induction targets mos rule: list_induct2') (simp_all add: group_config_increment)

lemma generate_config_list_abort:
  assumes "N \<noteq> 0"
    and "sch = LotteryTicket \<longrightarrow> (\<forall>t\<in>set targets. total_sparsity t < 1)"
    and "\<forall>mo\<in>set mos. total_sparsity mo \<noteq> 1"
    and "\<not> (\<forall>(t, mo)\<in>set (zip targets mos). in_unit (group_increment sch i N t mo))"
  shows "\<exists>(t, mo)\<in>set (zip targets mos). \<not> in_unit (group_increment sch i N t mo) \<and>
     generate_config_list sch N i targets mos =
       Inl (AssertionError [group_increment sch i N t mo,
              cumulative_target sch i N (total_sparsity t), total_sparsity mo])"
  using assms
proof (induction targets mos rule: list_induct2')
  case (4 t ts mo ms)
  show ?case
  proof (cases "in_unit (group_increment sch i N t mo)")
    case False
    then show ?thesis using 4(2-4) by (simp add: group_config_increment)
  next
    case True
    then have "\<not> (\<forall>(t, mo)\<in>set (zip ts ms). in_unit (group_increment sch i N t mo))"
      using 4(5) by simp
    then have "\<exists>(t, mo)\<in>set (zip ts ms). \<not> in_unit (group_increment sch i N t mo) \<and>
       generate_config_list sch N i ts ms =
         Inl (AssertionError [group_increment sch i N t mo,
              cumulative_target sch i N (total_sparsity t), total_sparsity mo])"
      using 4 by simp
    then show ?thesis using True 4(2-4) by (auto simp: group_config_increment)
  qed
qed simp_all

text \<open>
  C3: for every schedule, every group and every iteration (with a non-zero number of
  total iterations, an achieved sparsity other than 1, and for LotteryTicket a target
  below 1), the emitted sparsity of the group is the specification's
  \<open>S = max 0 ((C(i) - A) / (1 - A))\<close>; when every group's \<open>S\<close> lies in \<open>[0, 1]\<close> the
  config list is returned, and otherwise the generator stops with an assertion error
  that carries the offending \<open>S\<close>, \<open>C(i)\<close> and \<open>A\<close>, and returns no config.
\<close>

theorem generate_config_list_spec:
  assumes "N \<noteq> 0"
    and "sch = LotteryTicket \<longrightarrow> (\<forall>t\<in>set targets. total_sparsity t < 1)"
    and "\<forall>mo\<in>set mos. total_sparsity mo \<noteq> 1"
  shows "((\<forall>(t, mo)\<in>set (zip targets mos). in_unit (group_increment sch i N t mo)) \<longrightarrow>
           generate_config_list sch N i targets mos =
             Inr (map (\<lambda>(t, mo). t\<lparr>total_sparsity := group_increment sch i N t mo\<rparr>)
                    (zip targets mos))) \<and>
         (\<not> (\<forall>(t, mo)\<in>set (zip targets mos). in_unit (group_increment sch i N t mo)) \<longrightarrow>
           (\<exists>(t, mo)\<in>set (zip targets mos). \<not> in_unit (group_increment sch i N t mo) \<and>
              generate_config_list sch N i targets mos =
                Inl (AssertionError [group_increment sch i N t mo,
                       cumulative_target sch i N (total_sparsity t), total_sparsity mo])))"
  using generate_config_list_ok [OF assms] generate_config_list_abort [OF assms] by blast

lemma agp_example:
  "group_increment AGP 5 10 \<lparr>op_names = [''fc1''], total_sparsity = 1/2\<rparr>
      \<lparr>op_names = [''fc1''], total_sparsity = 1/5\<rparr> = 19/64"
  by (simp add: group_increment_def incremental_sparsity_def cumulative_target_def power3_eq_cube)

lemma lottery_example:
  "group_increment LotteryTicket 1 1 \<lparr>op_names = [''fc1''], total_sparsity = 9/10\<rparr>
      \<lparr>op_names = [''fc1''], total_sparsity = 0\<rparr> = 9/10"
  by (simp add: group_increment_def incremental_sparsity_def cumulative_target_def)

lemma abort_example:
  "group_increment Linear 5 10 \<lparr>op_names = [''fc1''], total_sparsity = 1/2\<rparr>
      \<lparr>op_names = [''fc1''], total_sparsity = 2\<rparr> = 7/4"
  by (simp add: group_increment_def incremental_sparsity_def cumulative_target_def)

theorem generate_config_list_spec_witness:
  "generate_config_list AGP 10 5
      [\<lparr>op_names = [''fc1''], total_sparsity = 1/2\<rparr>]
      [\<lparr>op_names = [''fc1''], total_sparsity = 1/5\<rparr>]
     = Inr [\<lparr>op_names = [''fc1''], total_sparsity = 19/64\<rparr>] \<and>
   generate_config_list LotteryTicket 1 1
      [\<lparr>op_names = [''fc1''], total_sparsity = 9/10\<rparr>]
      [\<lparr>op_names = [''fc1''], total_sparsity = 0\<rparr>]
     = Inr [\<lparr>op_names = [''fc1''], total_sparsity = 9/10\<rparr>] \<and>
   generate_config_list Linear 10 5
      [\<lparr>op_names = [''fc1''], total_sparsity = 1/2\<rparr>]
      [\<lparr>op_names = [''fc1''], total_sparsity = 2\<rparr>]
     = Inl (AssertionError [7/4, 1/4, 2])"
  using generate_config_list_spec [of 10 AGP "[\<lparr>op_names = [''fc1''], total_sparsity = 1/2\<rparr>]"
          "[\<lparr>op_names = [''fc1''], total_sparsity = 1/5\<rparr>]" 5]
    generate_config_list_spec [of 1 LotteryTicket "[\<lparr>op_names = [''fc1''], total_sparsity = 9/10\<rparr>]"
          "[\<lparr>op_names = [''fc1''], total_sparsity = 0\<rparr>]" 1]
    generate_config_list_spec [of 10 Linear "[\<lparr>op_names = [''fc1''], total_sparsity = 1/2\<rparr>]"
          "[\<lparr>op_names = [''fc1''], total_sparsity = 2\<rparr>]" 5]
  by (simp add: agp_example lottery_example abort_example in_unit_def cumulative_target_def)

lemma cumulative_target_le_1:
  assumes "1 \<le> N" "0 \<le> i" "i \<le> N" "0 \<le> T" "T < 1"
  shows "cumulative_target sch i N T \<le> 1"
proof -
  let ?r = "real_of_int i / real_of_int N"
  have r: "0 \<le> ?r" "?r \<le> 1" using assms by simp_all
  show ?thesis
  proof (cases sch)
    case AGP
    have "0 \<le> (1 - ?r) ^ 3" using r by simp
    then have "1 - (1 - ?r) ^ 3 \<le> 1" by simp
    moreover have "0 \<le> 1 - (1 - ?r) ^ 3" using r by (simp add: power_le_one)
    ultimately have "T * (1 - (1 - ?r) ^ 3) \<le> 1 * 1"
      using assms(4,5) by (intro mult_mono) simp_all
    then show ?thesis using AGP by (simp add: cumulative_target_def)
  next
    case Linear
    have "T * ?r \<le> 1 * 1" using assms(4,5) r by (intro mult_mono) simp_all
    then show ?thesis using Linear by (simp add: cumulative_target_def)
  next
    case LotteryTicket
    then show ?thesis by (simp add: cumulative_target_def)
  qed
qed

lemma group_increment_in_unit:
  assumes "1 \<le> N" "0 \<le> i" "i \<le> N" "0 \<le> total_sparsity t" "total_sparsity t < 1"
    and "total_sparsity mo < 1"
  shows "in_unit (group_increment sch i N t mo)"
  using cumulative_target_le_1 [OF assms(1-5), of sch] assms(6)
  by (simp add: in_unit_def group_increment_def incremental_sparsity_def)

lemma generate_config_list_valid:
  assumes "1 \<le> N" "0 \<le> i" "i \<le> N" "valid_sparsities targets" "valid_sparsities mos"
  shows "generate_config_list sch N i targets mos =
     Inr (map (\<lambda>(t, mo). t\<lparr>total_sparsity := group_increment sch i N t mo\<rparr>) (zip targets mos))"
proof (rule generate_config_list_ok)
  show "N \<noteq> 0" using assms(1) by simp
  show "sch = LotteryTicket \<longrightarrow> (\<forall>t\<in>set targets. total_sparsity t < 1)"
    using assms(4) by (simp add: valid_sparsities_def list_all_iff)
  show "\<forall>mo\<in>set mos. total_sparsity mo \<noteq> 1"
    using assms(5) by (auto simp: valid_sparsities_def list_all_iff)
  show "\<forall>(t, mo)\<in>set (zip targets mos). in_unit (group_increment sch i N t mo)"
  proof clarify
    fix t mo assume "(t, mo) \<in> set (zip targets mos)"
    then have "t \<in> set targets" "mo \<in> set mos"
      by (auto dest: set_zip_leftD set_zip_rightD)
    then show "in_unit (group_increment sch i N t mo)"
      using assms by (auto simp: valid_sparsities_def list_all_iff intro!: group_increment_in_unit)
  qed
qed

lemma record_sparsity_ok:
  assumes "rid = Origin \<or> (\<exists>k. rid = Tid k \<and> k \<in> dom (tasks s))"
  shows "\<exists>s1. record_sparsity s \<lparr>result_id = rid, current2origin_sparsity = c1,
              compact2origin_sparsity = c2\<rparr> = Inr s1 \<and>
          dom (tasks s1) = dom (tasks s) \<and> current_iteration s1 = current_iteration s \<and>
          total_iteration s1 = total_iteration s \<and> schedule s1 = schedule s \<and>
          target_sparsity s1 = target_sparsity s \<and> task_id_candidate s1 = task_id_candidate s"
  using assms by (auto simp: record_sparsity_def split: result_id.splits option.splits)

lemma expected_run_done: "N < i \<Longrightarrow> expected_run i N (Suc n) = None # expected_run i N n"
  by (simp add: expected_run_def replicate_app_Cons_same)

lemma expected_run_step: "i \<le> N \<Longrightarrow> expected_run i N (Suc n) = Some i # expected_run (i + 1) N n"
proof -
  assume a: "i \<le> N"
  then have u: "[i..N] = i # [i + 1..N]" by (simp add: upto_rec1)
  have "Suc n - nat (N + 1 - i) = n - nat (N + 1 - (i + 1))" using a by auto
  then show ?thesis by (simp add: expected_run_def u)
qed

lemma run_generator_valid:
  assumes "1 \<le> total_iteration s" "0 \<le> current_iteration s"
    and "valid_sparsities (target_sparsity s)"
    and "\<forall>(c1, c2)\<in>set fbs. valid_sparsities c2"
    and "rid = Origin \<or> (\<exists>k. rid = Tid k \<and> k \<in> dom (tasks s))"
  shows "run_generator s rid fbs =
     Inr (expected_run (current_iteration s) (total_iteration s) (length fbs))"
  using assms
proof (induction fbs arbitrary: s rid)
  case Nil
  then show ?case by (simp add: expected_run_def)
next
  case (Cons fb fbs)
  obtain c1 c2 where fb: "fb = (c1, c2)" by (cases fb)
  let ?r = "\<lparr>result_id = rid, current2origin_sparsity = c1, compact2origin_sparsity = c2\<rparr>"
  obtain s1 where s1: "record_sparsity s ?r = Inr s1" "dom (tasks s1) = dom (tasks s)"
      "current_iteration s1 = current_iteration s" "total_iteration s1 = total_iteration s"
      "schedule s1 = schedule s" "target_sparsity s1 = target_sparsity s"
      "task_id_candidate s1 = task_id_candidate s"
    using record_sparsity_ok [OF Cons.prems(5)] by blast
  have v2: "valid_sparsities c2" using Cons.prems(4) fb by simp
  have rest: "\<forall>(c1, c2)\<in>set fbs. valid_sparsities c2" using Cons.prems(4) by simp
  show ?case
  proof (cases "total_iteration s < current_iteration s")
    case True
    have g: "generate_tasks s ?r = Inr ([], s1)"
      using True s1 by (simp add: generate_tasks_def)
    have "run_generator s1 rid fbs =
        Inr (expected_run (current_iteration s1) (total_iteration s1) (length fbs))"
      using Cons.prems s1 rest by (intro Cons.IH) simp_all
    then show ?thesis using g True s1 fb by (simp add: expected_run_done)
  next
    case False
    let ?cl = "map (\<lambda>(t, mo). t\<lparr>total_sparsity :=
        group_increment (schedule s) (current_iteration s) (total_iteration s) t mo\<rparr>)
        (zip (target_sparsity s) c2)"
    let ?task = "\<lparr>task_id = task_id_candidate s, result_of = rid,
                               config_list = ?cl, current2origin = None, score = None\<rparr>"
    let ?s' = "s1\<lparr>tasks := (tasks s1)(task_id_candidate s \<mapsto> ?task),
                         task_id_candidate := task_id_candidate s + 1,
                         current_iteration := current_iteration s + 1\<rparr>"
    have gc: "generate_config_list (schedule s) (total_iteration s) (current_iteration s)
        (target_sparsity s) c2 = Inr ?cl"
      using False Cons.prems(1-3) v2 by (intro generate_config_list_valid) simp_all
    have g: "generate_tasks s ?r = Inr ([?task], ?s')"
      using False s1 gc by (simp add: generate_tasks_def Let_def)
    have "run_generator ?s' (Tid (task_id_candidate s)) fbs =
        Inr (expected_run (current_iteration ?s') (total_iteration ?s') (length fbs))"
      using Cons.prems(1-3) s1(3-6) rest by (intro Cons.IH) (simp_all add: dom_def)
    then show ?thesis using g False s1 fb by (simp add: expected_run_step)
  qed
qed


lemma generate_tasks_returns:
  assumes "generate_tasks s r = Inr (ts, s')"
  shows "(ts = [] \<longleftrightarrow> total_iteration s < current_iteration s) \<and> length ts \<le> 1 \<and>
         (ts \<noteq> [] \<longrightarrow> current_iteration s' = current_iteration s + 1)"
proof -
  obtain s1 where s1: "record_sparsity s r = Inr s1"
    using assms by (auto simp: generate_tasks_def split: sum.splits)
  then have "current_iteration s1 = current_iteration s \<and> total_iteration s1 = total_iteration s"
    by (auto simp: record_sparsity_def split: result_id.splits option.splits)
  then show ?thesis
    using assms s1 by (auto simp: generate_tasks_def Let_def split: sum.splits if_splits)
qed

lemma generate_tasks_done:
  assumes "known_result s r" and "total_iteration s < current_iteration s"
  shows "\<exists>s1. generate_tasks s r = Inr ([], s1)"
  using assms
  by (auto simp: generate_tasks_def record_sparsity_def known_result_def
      split: result_id.splits option.splits)

lemma generate_tasks_emits:
  assumes "known_result s r" and "1 \<le> total_iteration s" and "0 \<le> current_iteration s"
    and "current_iteration s \<le> total_iteration s"
    and "valid_sparsities (target_sparsity s)"
    and "valid_sparsities (compact2origin_sparsity r)"
  shows "\<exists>t s'. generate_tasks s r = Inr ([t], s') \<and>
           current_iteration s' = current_iteration s + 1 \<and>
           total_iteration s' = total_iteration s \<and> target_sparsity s' = target_sparsity s \<and>
           schedule s' = schedule s \<and> tasks s' (task_id t) \<noteq> None \<and>
           config_list t =
             map (\<lambda>(c, mo). c\<lparr>total_sparsity :=
                    group_increment (schedule s) (current_iteration s) (total_iteration s) c mo\<rparr>)
               (zip (target_sparsity s) (compact2origin_sparsity r))"
proof -
  obtain s1 where s1: "record_sparsity s r = Inr s1"
      "current_iteration s1 = current_iteration s" "total_iteration s1 = total_iteration s"
      "schedule s1 = schedule s" "target_sparsity s1 = target_sparsity s"
    using assms(1)
    by (auto simp: record_sparsity_def known_result_def split: result_id.splits option.splits)
  have gc: "generate_config_list (schedule s) (total_iteration s) (current_iteration s)
        (target_sparsity s) (compact2origin_sparsity r) =
      Inr (map (\<lambda>(c, mo). c\<lparr>total_sparsity :=
                    group_increment (schedule s) (current_iteration s) (total_iteration s) c mo\<rparr>)
               (zip (target_sparsity s) (compact2origin_sparsity r)))"
    using assms(2-6) by (intro generate_config_list_valid) simp_all
  show ?thesis
    using s1 gc assms(4) by (simp add: generate_tasks_def Let_def)
qed

lemma lottery_baseline:
  assumes "0 \<le> total_sparsity mo" and "total_sparsity mo < 1" and "total_sparsity t < 1"
  shows "group_increment LotteryTicket 0 N t mo = 0"
proof -
  have "(0 - total_sparsity mo) / (1 - total_sparsity mo) \<le> 0"
    using assms(1,2) by (simp add: divide_nonpos_pos)
  then show ?thesis
    using assms(3)
    by (simp add: group_increment_def cumulative_target_def incremental_sparsity_def max_def)
qed

lemma lottery_baseline_list:
  assumes "valid_sparsities targets" and "valid_sparsities mos"
  shows "map (\<lambda>(c, mo). c\<lparr>total_sparsity := group_increment LotteryTicket 0 N c mo\<rparr>)
           (zip targets mos) =
         map (\<lambda>(c, mo). c\<lparr>total_sparsity := 0\<rparr>) (zip targets mos)"
proof (rule map_cong [OF refl])
  fix p assume "p \<in> set (zip targets mos)"
  then obtain c mo where p: "p = (c, mo)" "c \<in> set targets" "mo \<in> set mos"
    by (metis prod.collapse set_zip_leftD set_zip_rightD)
  then have "group_increment LotteryTicket 0 N c mo = 0"
    using assms by (intro lottery_baseline) (auto simp: valid_sparsities_def list_all_iff)
  then show "(case p of (c, mo) \<Rightarrow> c\<lparr>total_sparsity := group_increment LotteryTicket 0 N c mo\<rparr>)
      = (case p of (c, mo) \<Rightarrow> c\<lparr>total_sparsity := 0\<rparr>)"
    using p by simp
qed

lemma construct_valid:
  assumes "1 \<le> N" and "valid_sparsities targets" and "valid_sparsities com2o"
  shows "\<exists>t s. construct sch N targets b cur2o com2o = Inr ([t], s) \<and>
           current_iteration s = 1 \<and> total_iteration s = N \<and> target_sparsity s = targets \<and>
           tasks s (task_id t) \<noteq> None \<and>
           (sch = LotteryTicket \<longrightarrow>
              config_list t = map (\<lambda>(c, mo). c\<lparr>total_sparsity := 0\<rparr>) (zip targets com2o))"
proof -
  let ?s0 = "function_based_init sch N targets b"
  let ?r = "\<lparr>result_id = Origin, current2origin_sparsity = cur2o,
                        compact2origin_sparsity = com2o\<rparr>"
  have f: "current_iteration ?s0 = 0" "total_iteration ?s0 = N" "target_sparsity ?s0 = targets"
      "schedule ?s0 = sch"
    by (simp_all add: function_based_init_def)
  have k: "known_result ?s0 ?r" by (simp add: known_result_def)
  from generate_tasks_emits [OF k] assms f obtain t s' where
    g: "generate_tasks ?s0 ?r = Inr ([t], s')" "current_iteration s' = 1"
       "total_iteration s' = N" "target_sparsity s' = targets" "tasks s' (task_id t) \<noteq> None"
       "config_list t = map (\<lambda>(c, mo). c\<lparr>total_sparsity := group_increment sch 0 N c mo\<rparr>)
               (zip targets com2o)"
    by auto
  have base: "config_list t = map (\<lambda>(c, mo). c\<lparr>total_sparsity := 0\<rparr>) (zip targets com2o)"
    if "sch = LotteryTicket"
    using g(6) that lottery_baseline_list [OF assms(2,3)] by simp
  show ?thesis
    using g base by (cases sch) (auto simp: construct_def init_pending_tasks_def)
qed


lemma generator_run_valid:
  assumes "1 \<le> N" and "valid_sparsities targets" and "valid_sparsities (snd origin_fb)"
    and "\<forall>(c1, c2)\<in>set fbs. valid_sparsities c2"
  shows "generator_run sch N targets b origin_fb fbs = Inr (expected_run 0 N (Suc (length fbs)))"
proof -
  from construct_valid [OF assms(1-3), of sch b "fst origin_fb"] obtain t s where
    c: "construct sch N targets b (fst origin_fb) (snd origin_fb) = Inr ([t], s)"
       "current_iteration s = 1" "total_iteration s = N" "target_sparsity s = targets"
       "tasks s (task_id t) \<noteq> None"
    by blast
  have "run_generator s (Tid (task_id t)) fbs =
      Inr (expected_run (current_iteration s) (total_iteration s) (length fbs))"
    using assms c by (intro run_generator_valid) (auto simp: dom_def)
  then have "generator_run sch N targets b origin_fb fbs =
      Inr (Some 0 # expected_run 1 N (length fbs))"
    using c by (simp add: generator_run_def function_based_init_def)
  then show ?thesis using assms(1) expected_run_step [of 0 N "length fbs"] by simp
qed

lemma expected_run_example:
  "expected_run 0 2 (Suc (Suc (Suc (Suc 0)))) = [Some 0, Some 1, Some 2, None]"
  by (simp add: expected_run_def upto_rec1)

text \<open>
  C4 (as stated): LotteryTicket starts at counter 1 and emits tasks for the iterations
  \<open>1..N\<close>, and AGP and Linear emit tasks for \<open>0..N\<close> for every \<open>N\<close>. The construction of
  a LotteryTicket generator makes the origin call while the counter is still 0 and
  emits the task of iteration 0 (the unpruned baseline, sparsity 0) before the counter
  is set to 1; and with \<open>total_iteration = 0\<close> the first call of an AGP generator raises
  ZeroDivisionError instead of emitting the task of iteration 0.
\<close>

theorem lottery_emits_iteration_zero:
  "construct LotteryTicket 2 [\<lparr>op_names = [''fc1''], total_sparsity = 1/2\<rparr>]
       \<lparr>task_id_candidate = 0, tasks = Map.empty\<rparr> []
       [\<lparr>op_names = [''fc1''], total_sparsity = 0\<rparr>]
     = Inr ([\<lparr>task_id = 0, result_of = Origin,
               config_list = [\<lparr>op_names = [''fc1''], total_sparsity = 0\<rparr>],
               current2origin = None, score = None\<rparr>],
            \<lparr>task_id_candidate = 1,
              tasks = [0 \<mapsto> \<lparr>task_id = 0, result_of = Origin,
                               config_list = [\<lparr>op_names = [''fc1''], total_sparsity = 0\<rparr>],
                               current2origin = None, score = None\<rparr>],
              schedule = LotteryTicket, current_iteration = 1, total_iteration = 2,
              target_sparsity = [\<lparr>op_names = [''fc1''], total_sparsity = 1/2\<rparr>]\<rparr>)
   \<and> construct AGP 0 [\<lparr>op_names = [''fc1''], total_sparsity = 1/2\<rparr>]
       \<lparr>task_id_candidate = 0, tasks = Map.empty\<rparr> []
       [\<lparr>op_names = [''fc1''], total_sparsity = 0\<rparr>]
     = Inl ZeroDivisionError"
  by (simp add: construct_def init_pending_tasks_def function_based_init_def generate_tasks_def
      record_sparsity_def group_config_def ori_sparsity_def py_float_pow_def Let_def)

text \<open>
  C4 (amended): a call of \<^verbatim>\<open>generate_tasks\<close> that returns gives the empty list exactly
  when the counter exceeds \<^verbatim>\<open>total_iteration\<close> and one task otherwise; it does return
  the empty list when the counter exceeds \<^verbatim>\<open>total_iteration\<close>, and one task, with the
  counter advanced by one, for a counter in \<open>0..N\<close> with \<open>N \<ge> 1\<close> and target and achieved
  sparsities in \<open>[0, 1)\<close>. The construction makes the origin call at counter 0 for all
  three generators and leaves the counter at 1 (LotteryTicket assigns 1 after that call),
  so that with \<open>total_iteration = N \<ge> 1\<close> AGP, Linear and LotteryTicket all emit one task
  for each of the iterations \<open>0..N\<close> and the empty list afterwards; the task of iteration
  0 of LotteryTicket requests sparsity 0 for every group.
\<close>

theorem iterations_from_zero:
  assumes "1 \<le> N" and "valid_sparsities targets" and "valid_sparsities (snd origin_fb)"
    and "\<forall>(c1, c2)\<in>set fbs. valid_sparsities c2"
  shows "generator_run sch N targets b origin_fb fbs =
           Inr (expected_run 0 N (Suc (length fbs)))
       \<and> (\<exists>t s. construct sch N targets b (fst origin_fb) (snd origin_fb) = Inr ([t], s) \<and>
             current_iteration s = 1 \<and>
             (sch = LotteryTicket \<longrightarrow>
                config_list t =
                  map (\<lambda>(c, mo). c\<lparr>total_sparsity := 0\<rparr>) (zip targets (snd origin_fb))))
       \<and> (\<forall>s r ts s'. generate_tasks s r = Inr (ts, s') \<longrightarrow>
            (ts = [] \<longleftrightarrow> total_iteration s < current_iteration s) \<and> length ts \<le> 1)
       \<and> (\<forall>s r. known_result s r \<and> total_iteration s < current_iteration s \<longrightarrow>
            (\<exists>s1. generate_tasks s r = Inr ([], s1)))
       \<and> (\<forall>s r. known_result s r \<and> 1 \<le> total_iteration s \<and> 0 \<le> current_iteration s \<and>
              current_iteration s \<le> total_iteration s \<and>
              valid_sparsities (target_sparsity s) \<and>
              valid_sparsities (compact2origin_sparsity r) \<longrightarrow>
            (\<exists>t s'. generate_tasks s r = Inr ([t], s') \<and>
               current_iteration s' = current_iteration s + 1))"
proof (intro conjI allI impI)
  show "generator_run sch N targets b origin_fb fbs = Inr (expected_run 0 N (Suc (length fbs)))"
    by (rule generator_run_valid [OF assms])
  show "\<exists>t s. construct sch N targets b (fst origin_fb) (snd origin_fb) = Inr ([t], s) \<and>
             current_iteration s = 1 \<and>
             (sch = LotteryTicket \<longrightarrow>
                config_list t =
                  map (\<lambda>(c, mo). c\<lparr>total_sparsity := 0\<rparr>) (zip targets (snd origin_fb)))"
    using construct_valid [OF assms(1-3), of sch b "fst origin_fb"] by blast
next
  fix s r ts s' assume g: "generate_tasks s r = Inr (ts, s')"
  show "(ts = []) = (total_iteration s < current_iteration s)" "length ts \<le> 1"
    using generate_tasks_returns [OF g] by simp_all
next
  fix s r assume "known_result s r \<and> total_iteration s < current_iteration s"
  then show "\<exists>s1. generate_tasks s r = Inr ([], s1)"
    using generate_tasks_done by blast
next
  fix s r
  assume a: "known_result s r \<and> 1 \<le> total_iteration s \<and> 0 \<le> current_iteration s \<and>
              current_iteration s \<le> total_iteration s \<and>
              valid_sparsities (target_sparsity s) \<and>
              valid_sparsities (compact2origin_sparsity r)"
  then have "\<exists>t s'. generate_tasks s r = Inr ([t], s') \<and>
           current_iteration s' = current_iteration s + 1 \<and>
           total_iteration s' = total_iteration s \<and> target_sparsity s' = target_sparsity s \<and>
           schedule s' = schedule s \<and> tasks s' (task_id t) \<noteq> None \<and>
           config_list t =
             map (\<lambda>(c, mo). c\<lparr>total_sparsity :=
                    group_increment (schedule s) (current_iteration s) (total_iteration s) c mo\<rparr>)
               (zip (target_sparsity s) (compact2origin_sparsity r))"
    by (intro generate_tasks_emits) simp_all
  then show "\<exists>t s'. generate_tasks s r = Inr ([t], s') \<and>
               current_iteration s' = current_iteration s + 1"
    by blast
qed

theorem iterations_from_zero_witness:
  "generator_run AGP 2 [\<lparr>op_names = [''fc1''], total_sparsity = 1/2\<rparr>]
        \<lparr>task_id_candidate = 0, tasks = Map.empty\<rparr>
      ([], [\<lparr>op_names = [''fc1''], total_sparsity = 0\<rparr>])
      [([], [\<lparr>op_names = [''fc1''], total_sparsity = 0\<rparr>]),
       ([], [\<lparr>op_names = [''fc1''], total_sparsity = 1/4\<rparr>]),
       ([], [\<lparr>op_names = [''fc1''], total_sparsity = 1/2\<rparr>])]
     = Inr [Some 0, Some 1, Some 2, None] \<and>
   generator_run LotteryTicket 2 [\<lparr>op_names = [''fc1''], total_sparsity = 1/2\<rparr>]
        \<lparr>task_id_candidate = 0, tasks = Map.empty\<rparr>
      ([], [\<lparr>op_names = [''fc1''], total_sparsity = 0\<rparr>])
      [([], [\<lparr>op_names = [''fc1''], total_sparsity = 0\<rparr>]),
       ([], [\<lparr>op_names = [''fc1''], total_sparsity = 1/4\<rparr>]),
       ([], [\<lparr>op_names = [''fc1''], total_sparsity = 1/2\<rparr>])]
     = Inr [Some 0, Some 1, Some 2, None]"
proof -
  let ?targets = "[\<lparr>op_names = [''fc1''], total_sparsity = 1/2\<rparr>]"
  let ?o = "([]::config list, [\<lparr>op_names = [''fc1''], total_sparsity = 0\<rparr>])"
  let ?fbs = "[([], [\<lparr>op_names = [''fc1''], total_sparsity = 0\<rparr>]),
       ([], [\<lparr>op_names = [''fc1''], total_sparsity = 1/4\<rparr>]),
       ([]::config list, [\<lparr>op_names = [''fc1''], total_sparsity = 1/2\<rparr>])]"
  have n: "1 \<le> (2::int)" by simp
  have t: "valid_sparsities ?targets" by (simp add: valid_sparsities_def)
  have o: "valid_sparsities (snd ?o)" by (simp add: valid_sparsities_def)
  have f: "\<forall>(c1, c2)\<in>set ?fbs. valid_sparsities c2" by (simp add: valid_sparsities_def)
  have "generator_run AGP 2 ?targets \<lparr>task_id_candidate = 0, tasks = Map.empty\<rparr> ?o ?fbs =
      Inr (expected_run 0 2 (Suc (length ?fbs)))"
    by (rule iterations_from_zero [OF n t o f, THEN conjunct1])
  moreover have "generator_run LotteryTicket 2 ?targets
      \<lparr>task_id_candidate = 0, tasks = Map.empty\<rparr> ?o ?fbs =
      Inr (expected_run 0 2 (Suc (length ?fbs)))"
    by (rule iterations_from_zero [OF n t o f, THEN conjunct1])
  ultimately show ?thesis by (simp add: expected_run_example)
qed

section \<open>Properties of the annealing engine\<close>

text \<open>
  C5: in the acceptance step, a candidate whose score is strictly greater than the
  current score is accepted, whatever the random source is: the current score and the
  current sparsity assignment are replaced by the candidate's and the temperature is
  multiplied by the cool-down rate. (The draw is not even taken.)
\<close>

theorem strict_improvement_accepted:
  assumes "current_sparsity_list s = Some cur" and "current_score s = Some c" and "c < sc"
  shows "anneal_step g s (Some sc) =
     Inr (s\<lparr>current_score := Some sc,
            current_sparsity_list := Some (temp_sparsity_list s),
            current_temperature := current_temperature s * cool_down_rate s\<rparr>)"
  using assms by (simp add: anneal_step_def accept_candidate_def)

theorem strict_improvement_accepted_witness:
  "anneal_step half_rng
      \<lparr>task_id_candidate = 1, tasks = Map.empty,
        start_temperature = 100, current_temperature = 100, stop_temperature = 20,
        cool_down_rate = 9/10, perturbation_magnitude = 7/20,
        weights_numel = [(''fc1'', 10)], masked_rate = [],
        target_sparsity_list = [\<lparr>op_names = [''fc1''], total_sparsity = 1/2\<rparr>],
        temp_config_list = Some [\<lparr>op_names = [''fc1''], total_sparsity = 1/4\<rparr>],
        temp_sparsity_list = [[1/4]],
        current_sparsity_list = Some [[1/2]], current_score = Some 1, rng_pos = 1\<rparr> (Some 2)
     = Inr \<lparr>task_id_candidate = 1, tasks = Map.empty,
        start_temperature = 100, current_temperature = 90, stop_temperature = 20,
        cool_down_rate = 9/10, perturbation_magnitude = 7/20,
        weights_numel = [(''fc1'', 10)], masked_rate = [],
        target_sparsity_list = [\<lparr>op_names = [''fc1''], total_sparsity = 1/2\<rparr>],
        temp_config_list = Some [\<lparr>op_names = [''fc1''], total_sparsity = 1/4\<rparr>],
        temp_sparsity_list = [[1/4]],
        current_sparsity_list = Some [[1/4]], current_score = Some 2, rng_pos = 1\<rparr>"
  using strict_improvement_accepted [where g = half_rng and sc = 2 and c = 1 and cur = "[[1/2]]"
      and s = "\<lparr>task_id_candidate = 1, tasks = Map.empty,
        start_temperature = 100, current_temperature = 100, stop_temperature = 20,
        cool_down_rate = 9/10, perturbation_magnitude = 7/20,
        weights_numel = [(''fc1'', 10)], masked_rate = [],
        target_sparsity_list = [\<lparr>op_names = [''fc1''], total_sparsity = 1/2\<rparr>],
        temp_config_list = Some [\<lparr>op_names = [''fc1''], total_sparsity = 1/4\<rparr>],
        temp_sparsity_list = [[1/4]],
        current_sparsity_list = Some [[1/2]], current_score = Some 1, rng_pos = 1\<rparr>"]
  by simp

















section \<open>Rank order of sparsities and weight sizes\<close>

lemma lookup_numel_pairs:
  assumes "distinct (map fst wn)" and "set L \<subseteq> set wn"
  shows "lookup_numel wn (map fst L) = Inr (map snd L)"
  using assms(2)
proof (induction L)
  case Nil
  then show ?case by simp
next
  case (Cons p L)
  obtain k v where p: "p = (k, v)" by (cases p)
  have "map_of wn k = Some v" using Cons.prems p assms(1) by (intro map_of_is_SomeI) simp_all
  then show ?case using Cons p by simp
qed

lemma lookup_numel_map:
  assumes "lookup_numel wn ns = Inr ws"
  shows "ws = map (\<lambda>n. the (map_of wn n)) ns"
  using assms
  by (induction ns arbitrary: ws) (auto split: option.splits sum.splits)

lemma ranked_props:
  assumes d: "distinct (map fst wn)" and dn: "distinct (op_names c)"
    and sub: "set (op_names c) \<subseteq> fst ` set wn"
    and look: "lookup_numel wn (op_names c) = Inr ws"
  shows "mset (map fst (ranked wn c)) = mset (op_names c)"
    and "lookup_numel wn (map fst (ranked wn c)) = Inr (sort ws)"
proof -
  let ?L = "ranked wn c"
  have "mset (map fst (sort_key snd wn)) = mset (map fst wn)" by simp
  then have "distinct (map fst (sort_key snd wn))"
    using d by (metis mset_eq_imp_distinct_iff)
  then have dL: "distinct (map fst ?L)" unfolding ranked_def by (rule distinct_map_filter)
  have sL: "set (map fst ?L) = set (op_names c)"
    using sub by (force simp: ranked_def)
  show m: "mset (map fst ?L) = mset (op_names c)"
    using set_eq_iff_mset_eq_distinct [OF dL dn] sL by blast
  have subL: "set ?L \<subseteq> set wn" by (auto simp: ranked_def)
  have l: "lookup_numel wn (map fst ?L) = Inr (map snd ?L)"
    by (rule lookup_numel_pairs [OF d subL])
  have "sorted (map snd (sort_key snd wn))" by (rule sorted_sort_key)
  then have srt: "sorted (map snd ?L)" unfolding ranked_def by (rule sorted_filter)
  have "map snd ?L = map (\<lambda>n. the (map_of wn n)) (map fst ?L)"
    by (rule lookup_numel_map [OF l])
  then have "mset (map snd ?L) = image_mset (\<lambda>n. the (map_of wn n)) (mset (map fst ?L))"
    by (metis mset_map)
  also have "\<dots> = image_mset (\<lambda>n. the (map_of wn n)) (mset (op_names c))" by (simp only: m)
  also have "\<dots> = mset ws" using lookup_numel_map [OF look] by simp
  finally have "sort ws = map snd ?L" using srt by (intro properties_for_sort) simp_all
  then show "lookup_numel wn (map fst ?L) = Inr (sort ws)" using l by simp
qed


lemma rescale_sparsity_general:
  assumes len: "length fr = length names" and look: "lookup_numel wn names = Inr ws"
  shows "rescale_sparsity wn fr t names =
     (if (\<Sum>(w, f) \<leftarrow> zip (sort ws) (sort fr). py_int (real_of_int w * f)) = 0 then Inr None
      else if sum_list ws = 0 then Inl ZeroDivisionError
      else Inr (Some (map (\<lambda>f. f * (t /
             (real_of_int (\<Sum>(w, f) \<leftarrow> zip (sort ws) (sort fr). py_int (real_of_int w * f))
               / real_of_int (sum_list ws)))) (sort fr))))"
proof -
  have l: "length (sort ws) = length (sort fr)"
    using len lookup_numel_length [OF look] by simp
  have "sum_list (sort ws) = sum_list ws"
    by (metis mset_sort sum_mset_sum_list)
  then have tot: "scale_totals (sort ws) (sort fr) 0 0 =
      (sum_list ws, \<Sum>(w, f) \<leftarrow> zip (sort ws) (sort fr). py_int (real_of_int w * f))"
    by (simp add: scale_totals_sums map_fst_zip_eq [OF l])
  show ?thesis
    by (simp add: rescale_sparsity_def len look tot Let_def)
qed

lemma sum_list_map2_nth:
  assumes "length xs = length ys"
  shows "(\<Sum>(x, y) \<leftarrow> zip xs ys. f x y) = (\<Sum>i<length ys. f (xs ! i) (ys ! i))"
proof -
  have "(\<Sum>(x, y) \<leftarrow> zip xs ys. f x y) =
      (\<Sum>i = 0..<length (zip xs ys). (map (\<lambda>(x, y). f x y) (zip xs ys)) ! i)"
    by (simp add: sum_list_sum_nth)
  also have "\<dots> = (\<Sum>i = 0..<length ys. f (xs ! i) (ys ! i))"
    using assms by (intro sum.cong) simp_all
  finally show ?thesis by (simp add: lessThan_atLeast0)
qed

lemma sorted_scaled:
  fixes k :: real
  assumes "sorted xs" and "0 \<le> k"
  shows "sorted (map (\<lambda>f. f * k) xs)"
  using assms by (induction xs) (auto simp: mult_right_mono)

lemma rescale_sparsity_ranked:
  assumes len: "length sp = length names" and look: "lookup_numel wn names = Inr ws"
  shows "rescale_sparsity wn sp t names =
     (if rank_paired_pruned ws sp = 0 then Inr None
      else if sum_list ws = 0 then Inl ZeroDivisionError
      else Inr (Some (map (\<lambda>f. f * (t /
             (real_of_int (rank_paired_pruned ws sp) / real_of_int (sum_list ws)))) (sort sp))))"
proof -
  have l: "length (sort ws) = length (sort sp)"
    using len lookup_numel_length [OF look] by simp
  have "(\<Sum>(w, f) \<leftarrow> zip (sort ws) (sort sp). py_int (real_of_int w * f)) =
      rank_paired_pruned ws sp"
    using sum_list_map2_nth [OF l, of "\<lambda>w f. py_int (real_of_int w * f)"]
    by (simp add: rank_paired_pruned_def)
  then show ?thesis using rescale_sparsity_general [OF len look, of t] by simp
qed

lemma rank_paired_pruned_nonneg:
  assumes "\<forall>w\<in>set ws. 0 < w" and "\<forall>f\<in>set sp. 0 \<le> f" and "length ws = length sp"
  shows "0 \<le> rank_paired_pruned ws sp"
  unfolding rank_paired_pruned_def
proof (rule sum_nonneg)
  fix i assume "i \<in> {..<length sp}"
  then have "sort ws ! i \<in> set (sort ws)" "sort sp ! i \<in> set (sort sp)"
    using assms(3) by (simp_all del: set_sort)
  then have "0 \<le> real_of_int (sort ws ! i) * sort sp ! i"
    using assms(1,2) by (auto intro!: mult_nonneg_nonneg simp: less_imp_le)
  then show "0 \<le> py_int (real_of_int (sort ws ! i) * sort sp ! i)"
    by (simp add: py_int_def)
qed

lemma rank_paired_pruned_example: "rank_paired_pruned [4, 3] [3/4, 1/2] = 4"
  by (simp add: rank_paired_pruned_def py_int_def lessThan_Suc numeral_2_eq_2)

text \<open>
  C8: for a group whose ops are known and distinct, the exported config list pairs the
  sparsity values sorted ascending with the ops ordered by ascending element count (the
  i-th smallest value goes to the op with the i-th smallest count). The rescale pairs
  the sorted sparsity vector with the sorted weight sizes position by position: it
  returns \<^verbatim>\<open>None\<close> when the count over these pairs is 0 and otherwise the sorted
  vector times the scale computed from that count, and its result is the same on the
  ops in rank order. For a non-negative target and candidate the rescaled vector is
  sorted, so its i-th value is exported for the op with the i-th smallest count.
\<close>

theorem rank_order_pairing:
  assumes d: "distinct (map fst wn)" and dn: "distinct (op_names c)"
    and sub: "set (op_names c) \<subseteq> fst ` set wn"
    and look: "lookup_numel wn (op_names c) = Inr ws"
    and len: "length sp = length (op_names c)"
  shows "\<exists>ns. length ns = length sp \<and> mset ns = mset (op_names c) \<and>
           lookup_numel wn ns = Inr (sort ws) \<and>
           sparsity_to_config_list wn sp c =
             Inr (map (\<lambda>(s, n). \<lparr>op_names = [n], total_sparsity = s\<rparr>) (zip (sort sp) ns)) \<and>
           rescale_sparsity wn sp t (op_names c) =
             (if rank_paired_pruned ws sp = 0 then Inr None
              else if sum_list ws = 0 then Inl ZeroDivisionError
              else Inr (Some (map (\<lambda>f. f * (t /
                     (real_of_int (rank_paired_pruned ws sp) / real_of_int (sum_list ws))))
                   (sort sp)))) \<and>
           rescale_sparsity wn sp t (op_names c) = rescale_sparsity wn (sort sp) t ns \<and>
           (0 \<le> t \<and> (\<forall>f\<in>set sp. 0 \<le> f) \<and> (\<forall>w\<in>set ws. 0 < w) \<longrightarrow>
              (\<forall>v. rescale_sparsity wn sp t (op_names c) = Inr (Some v) \<longrightarrow>
                 sparsity_to_config_list wn v c =
                   Inr (map (\<lambda>(s, n). \<lparr>op_names = [n], total_sparsity = s\<rparr>) (zip v ns))))"
proof -
  let ?ns = "map fst (ranked wn c)"
  let ?P = "rank_paired_pruned ws sp"
  let ?k = "t / (real_of_int ?P / real_of_int (sum_list ws))"
  note r = ranked_props [OF d dn sub look]
  have ln: "length ?ns = length sp"
    using r(1) len by (metis size_mset)
  have exp: "sparsity_to_config_list wn x c =
      Inr (map (\<lambda>(s, n). \<lparr>op_names = [n], total_sparsity = s\<rparr>) (zip (sort x) ?ns))"
    if "length x = length sp" for x
    using ln that by (simp add: sparsity_to_config_list_def ranked_def Let_def)
  have g1: "rescale_sparsity wn sp t (op_names c) =
     (if ?P = 0 then Inr None
      else if sum_list ws = 0 then Inl ZeroDivisionError
      else Inr (Some (map (\<lambda>f. f * ?k) (sort sp))))"
    by (rule rescale_sparsity_ranked [OF len look])
  have ss: "sum_list (sort ws) = sum_list ws" by (metis mset_sort sum_mset_sum_list)
  have rp: "rank_paired_pruned (sort ws) (sort sp) = ?P"
    by (simp add: rank_paired_pruned_def sorted_sort_id)
  have g2: "rescale_sparsity wn (sort sp) t ?ns = rescale_sparsity wn sp t (op_names c)"
    unfolding g1 using rescale_sparsity_ranked [OF _ r(2), of "sort sp" t] ln
    by (simp add: ss rp sorted_sort_id)
  have e2e: "sparsity_to_config_list wn v c =
      Inr (map (\<lambda>(s, n). \<lparr>op_names = [n], total_sparsity = s\<rparr>) (zip v ?ns))"
    if h: "0 \<le> t \<and> (\<forall>f\<in>set sp. 0 \<le> f) \<and> (\<forall>w\<in>set ws. 0 < w)"
      and v: "rescale_sparsity wn sp t (op_names c) = Inr (Some v)" for v
  proof -
    have lw: "length ws = length sp" using lookup_numel_length [OF look] len by simp
    have P0: "0 \<le> ?P" using rank_paired_pruned_nonneg h lw by blast
    have vk: "v = map (\<lambda>f. f * ?k) (sort sp)" and Pn: "?P \<noteq> 0" and Wn: "sum_list ws \<noteq> 0"
      using v unfolding g1 by (auto split: if_splits)
    have "0 \<le> sum_list ws" using h by (intro sum_list_nonneg) (auto simp: less_imp_le)
    then have "0 \<le> ?k" using h P0 Pn Wn by (intro divide_nonneg_nonneg) simp_all
    then have "sorted v" unfolding vk by (intro sorted_scaled) simp_all
    then have "sort v = v" by (rule sorted_sort_id)
    moreover have "length v = length sp" unfolding vk by simp
    ultimately show ?thesis using exp [of v] by simp
  qed
  have last: "0 \<le> t \<and> (\<forall>f\<in>set sp. 0 \<le> f) \<and> (\<forall>w\<in>set ws. 0 < w) \<longrightarrow>
      (\<forall>v. rescale_sparsity wn sp t (op_names c) = Inr (Some v) \<longrightarrow>
         sparsity_to_config_list wn v c =
           Inr (map (\<lambda>(s, n). \<lparr>op_names = [n], total_sparsity = s\<rparr>) (zip v ?ns)))"
    using e2e by (intro impI allI)
  show ?thesis
    by (intro exI [of _ ?ns] conjI)
       (rule ln r(1) r(2) exp [OF refl] g1 g2 [symmetric] last)+
qed


theorem rank_order_pairing_witness:
  "rescale_sparsity [(''conv1'', 4), (''fc1'', 3)] [3/4, 1/2] (1/2) [''conv1'', ''fc1'']
     = Inr (Some [7/16, 21/32]) \<and>
   sparsity_to_config_list [(''conv1'', 4), (''fc1'', 3)] [7/16, 21/32]
       \<lparr>op_names = [''conv1'', ''fc1''], total_sparsity = 1/2\<rparr> =
     Inr [\<lparr>op_names = [''fc1''], total_sparsity = 7/16\<rparr>,
          \<lparr>op_names = [''conv1''], total_sparsity = 21/32\<rparr>] \<and>
   (\<exists>ns. length ns = 2 \<and> mset ns = mset [''conv1'', ''fc1''] \<and>
      lookup_numel [(''conv1'', 4), (''fc1'', 3)] ns = Inr [3, 4] \<and>
      sparsity_to_config_list [(''conv1'', 4), (''fc1'', 3)] [7/16, 21/32]
          \<lparr>op_names = [''conv1'', ''fc1''], total_sparsity = 1/2\<rparr> =
        Inr (map (\<lambda>(s, n). \<lparr>op_names = [n], total_sparsity = s\<rparr>) (zip [7/16, 21/32] ns)))"
proof -
  let ?wn = "[(''conv1'', 4), (''fc1'', 3 :: int)]"
  let ?c = "\<lparr>op_names = [''conv1'', ''fc1''], total_sparsity = 1/2\<rparr>"
  let ?sp = "[3/4, 1/2 :: real]"
  let ?v = "[7/16, 21/32 :: real]"
  have h: "distinct (map fst ?wn)" "distinct (op_names ?c)"
      "set (op_names ?c) \<subseteq> fst ` set ?wn"
      "lookup_numel ?wn (op_names ?c) = Inr [4, 3]"
      "length ?sp = length (op_names ?c)"
    by simp_all
  from rank_order_pairing [OF h, of "1/2"] obtain ns where
    ns: "length ns = length ?sp" "mset ns = mset (op_names ?c)"
      "lookup_numel ?wn ns = Inr (sort [4, 3])"
      "rescale_sparsity ?wn ?sp (1/2) (op_names ?c) =
         (if rank_paired_pruned [4, 3] ?sp = 0 then Inr None
          else if sum_list [4, 3 :: int] = 0 then Inl ZeroDivisionError
          else Inr (Some (map (\<lambda>f. f * ((1/2) /
                 (real_of_int (rank_paired_pruned [4, 3] ?sp) / real_of_int (sum_list [4, 3]))))
               (sort ?sp))))"
      "0 \<le> (1/2 :: real) \<and> (\<forall>f\<in>set ?sp. 0 \<le> f) \<and> (\<forall>w\<in>set [4, 3 :: int]. 0 < w) \<longrightarrow>
         (\<forall>v. rescale_sparsity ?wn ?sp (1/2) (op_names ?c) = Inr (Some v) \<longrightarrow>
            sparsity_to_config_list ?wn v ?c =
              Inr (map (\<lambda>(s, n). \<lparr>op_names = [n], total_sparsity = s\<rparr>) (zip v ns)))"
    by blast
  have r: "rescale_sparsity ?wn ?sp (1/2) [''conv1'', ''fc1''] = Inr (Some ?v)"
    using ns(4) by (simp add: rank_paired_pruned_example)
  have e: "sparsity_to_config_list ?wn ?v ?c =
      Inr (map (\<lambda>(s, n). \<lparr>op_names = [n], total_sparsity = s\<rparr>) (zip ?v ns))"
    using ns(5) r by simp
  have x: "sparsity_to_config_list ?wn ?v ?c =
     Inr [\<lparr>op_names = [''fc1''], total_sparsity = 7/16\<rparr>,
          \<lparr>op_names = [''conv1''], total_sparsity = 21/32\<rparr>]"
    by (simp add: sparsity_to_config_list_def)
  have "\<exists>ns. length ns = 2 \<and> mset ns = mset [''conv1'', ''fc1''] \<and>
      lookup_numel ?wn ns = Inr [3, 4] \<and>
      sparsity_to_config_list ?wn ?v ?c =
        Inr (map (\<lambda>(s, n). \<lparr>op_names = [n], total_sparsity = s\<rparr>) (zip ?v ns))"
    using ns(1-3) e by (intro exI [of _ ns]) simp
  then show ?thesis using r x by blast
qed

section \<open>Groups with target sparsity 0\<close>

lemma sparsity_to_config_list_entries:
  assumes "sparsity_to_config_list wn v c = Inr cl"
  shows "\<forall>e\<in>set cl. \<exists>n\<in>set (op_names c). op_names e = [n]"
proof -
  let ?ns = "map fst (filter (\<lambda>(k, _). k \<in> set (op_names c)) (sort_key snd wn))"
  have cl: "cl = map (\<lambda>(sp, op_name). \<lparr>op_names = [op_name], total_sparsity = sp\<rparr>) (zip (sort v) ?ns)"
    using assms by (simp add: sparsity_to_config_list_def Let_def split: if_splits)
  have "set ?ns \<subseteq> set (op_names c)" by auto
  then show ?thesis unfolding cl by (auto dest!: set_zip_rightD)
qed

lemma perturb_sample_result:
  assumes "perturb_sample g wn m c cur pos = Some y"
  shows "\<forall>cl v pos'. y = Inr ((cl, v), pos') \<longrightarrow> sparsity_to_config_list wn v c = Inr cl"
  by (rule perturb_sample.raw_induct
        [where P = "\<lambda>g wn m c cur pos y.
           \<forall>cl v pos'. y = Inr ((cl, v), pos') \<longrightarrow> sparsity_to_config_list wn v c = Inr cl",
         OF _ assms])
     (auto split: sum.splits option.splits if_splits)

lemma init_config_sparsity_entries:
  assumes "init_config_sparsity g wn c pos = Some (Inr ((cl, v), pos'))"
  shows "(total_sparsity c = 0 \<longrightarrow> v = []) \<and>
         (\<forall>e\<in>set cl. total_sparsity c \<noteq> 0 \<and> (\<exists>n\<in>set (op_names c). op_names e = [n]))"
proof (cases "total_sparsity c = 0")
  case True
  then show ?thesis using assms by (simp add: init_config_sparsity_def)
next
  case False
  then have "sparsity_to_config_list wn v c = Inr cl"
    using assms
    by (auto simp: init_config_sparsity_def split: option.splits sum.splits)
  then show ?thesis using False sparsity_to_config_list_entries by blast
qed

lemma init_temp_config_list_zero:
  assumes "init_temp_config_list g wn cs pos = Some (Inr ((cl, sl), pos'))"
  shows "zero_groups_empty cs sl \<and> (\<forall>e\<in>set cl. from_nonzero_group cs e)"
  using assms
proof (induction cs arbitrary: cl sl pos pos')
  case Nil
  then show ?case by (simp add: zero_groups_empty_def)
next
  case (Cons c cs)
  from Cons.prems obtain cl1 v p1 cl2 sl2 where
    a: "init_config_sparsity g wn c pos = Some (Inr ((cl1, v), p1))"
    and b: "init_temp_config_list g wn cs p1 = Some (Inr ((cl2, sl2), pos'))"
    and c: "cl = cl1 @ cl2" "sl = v # sl2"
    by (auto split: option.splits sum.splits)
  note A = init_config_sparsity_entries [OF a]
  note B = Cons.IH [OF b]
  show ?case
    using A B c by (auto simp: zero_groups_empty_def from_nonzero_group_def)
qed

lemma perturb_group_entries:
  assumes "perturb_group g wn m c cur pos = Some (Inr ((cl, v), pos'))"
  shows "(cur = [] \<longrightarrow> v = []) \<and>
         (\<forall>e\<in>set cl. cur \<noteq> [] \<and> (\<exists>n\<in>set (op_names c). op_names e = [n]))"
proof (cases "cur = []")
  case True
  then show ?thesis using assms by (simp add: perturb_group_def)
next
  case False
  then have "perturb_sample g wn m c cur pos = Some (Inr ((cl, v), pos'))"
    using assms by (simp add: perturb_group_def)
  from perturb_sample_result [OF this] have "sparsity_to_config_list wn v c = Inr cl" by simp
  then show ?thesis using False sparsity_to_config_list_entries by blast
qed

lemma perturb_groups_zero:
  assumes "perturb_groups g wn m cs cur pos = Some (Inr ((cl, sl), pos'))"
    and "zero_groups_empty cs cur"
  shows "zero_groups_empty cs sl \<and> (\<forall>e\<in>set cl. from_nonzero_group cs e)"
  using assms
proof (induction g wn m cs cur pos arbitrary: cl sl pos' rule: perturb_groups.induct)
  case (1 g wn m c cs v rest pos)
  from "1.prems"(1) obtain cl1 v1 p1 cl2 sl2 where
    a: "perturb_group g wn m c v pos = Some (Inr ((cl1, v1), p1))"
    and b: "perturb_groups g wn m cs rest p1 = Some (Inr ((cl2, sl2), pos'))"
    and c: "cl = cl1 @ cl2" "sl = v1 # sl2"
    by (auto split: option.splits sum.splits)
  have z: "zero_groups_empty cs rest" "total_sparsity c = 0 \<longrightarrow> v = []"
    using "1.prems"(2) by (simp_all add: zero_groups_empty_def)
  note A = perturb_group_entries [OF a]
  have B: "zero_groups_empty cs sl2 \<and> (\<forall>e\<in>set cl2. from_nonzero_group cs e)"
    using "1.IH" a b z(1) by blast
  show ?case
    using A B c z(2) by (auto simp: zero_groups_empty_def from_nonzero_group_def)
qed (simp_all add: zero_groups_empty_def)


lemma recover_real_sparsity_names:
  assumes "recover_real_sparsity mr cl = Inr cl'"
  shows "map op_names cl' = map op_names cl"
  using assms
  by (induction cl arbitrary: cl')
     (auto simp: recover_config_def split: sum.splits list.splits option.splits)

lemma from_nonzero_group_names:
  assumes "map op_names cl' = map op_names cl" and "\<forall>e\<in>set cl. from_nonzero_group T e"
  shows "\<forall>e\<in>set cl'. from_nonzero_group T e"
proof
  fix e' assume "e' \<in> set cl'"
  then have "op_names e' \<in> set (map op_names cl)" using assms(1) by (metis image_eqI set_map)
  then obtain e where e: "e \<in> set cl" "op_names e = op_names e'" by auto
  then have "from_nonzero_group T e" using assms(2) by blast
  then show "from_nonzero_group T e'"
    unfolding from_nonzero_group_def e(2) .
qed

lemma emit_task_zero:
  assumes "emit_task s = Inr (ts, s')" and "temp_config_list s = Some cl"
    and "\<forall>e\<in>set cl. from_nonzero_group (target_sparsity_list s) e" and "zero_kept s"
  shows "zero_kept s' \<and> target_sparsity_list s' = target_sparsity_list s \<and>
         (\<forall>t\<in>set ts. \<forall>e\<in>set (config_list t). from_nonzero_group (target_sparsity_list s) e)"
proof -
  from assms(1,2) obtain cl' where r: "recover_real_sparsity (masked_rate s) cl = Inr cl'"
    and ts: "ts = [\<lparr>task_id = task_id_candidate s, result_of = Origin,
                    config_list = cl', current2origin = None, score = None\<rparr>]"
    and s': "s' = s\<lparr>tasks := (tasks s)(task_id_candidate s \<mapsto>
                    \<lparr>task_id = task_id_candidate s, result_of = Origin,
                      config_list = cl', current2origin = None, score = None\<rparr>),
                  task_id_candidate := task_id_candidate s + 1\<rparr>"
    by (auto simp: emit_task_def Let_def split: sum.splits)
  have "\<forall>e\<in>set cl'. from_nonzero_group (target_sparsity_list s) e"
    using from_nonzero_group_names [OF recover_real_sparsity_names [OF r] assms(3)] .
  then show ?thesis using assms(4) ts s' by (auto simp: zero_kept_def split: option.splits)
qed

lemma anneal_step_zero:
  assumes "anneal_step g s sc = Inr s1" and "zero_kept s" and "temp_config_list s \<noteq> None"
  shows "zero_kept s1 \<and> target_sparsity_list s1 = target_sparsity_list s \<and>
         temp_config_list s1 = temp_config_list s"
  using assms
  by (auto simp: anneal_step_def accept_candidate_def zero_kept_def
      split: option.splits if_splits)

lemma update_with_perturbations_zero:
  assumes "update_with_perturbations g s = Some (Inr s2)" and "zero_kept s"
  shows "zero_kept s2 \<and> target_sparsity_list s2 = target_sparsity_list s \<and>
         (\<exists>cl. temp_config_list s2 = Some cl \<and>
            (\<forall>e\<in>set cl. from_nonzero_group (target_sparsity_list s) e))"
proof -
  from assms(1) obtain cur cl sl pos where cur: "current_sparsity_list s = Some cur"
    and p: "perturb_groups g (weights_numel s)
              (current_temperature s / start_temperature s * perturbation_magnitude s)
              (target_sparsity_list s) cur (rng_pos s) = Some (Inr ((cl, sl), pos))"
    and s2: "s2 = s\<lparr>temp_config_list := Some cl, temp_sparsity_list := sl, rng_pos := pos\<rparr>"
    by (auto simp: update_with_perturbations_def split: option.splits sum.splits if_splits)
  have z: "zero_groups_empty (target_sparsity_list s) cur"
    using assms(2) cur by (simp add: zero_kept_def)
  note P = perturb_groups_zero [OF p z]
  show ?thesis using P s2 cur z by (auto simp: zero_kept_def split: option.splits)
qed

lemma sa_generate_tasks_zero:
  assumes "zero_kept s" and "sa_generate_tasks g s rid = Some (Inr (ts, s'))"
  shows "zero_kept s' \<and> target_sparsity_list s' = target_sparsity_list s \<and>
         (\<forall>t\<in>set ts. \<forall>e\<in>set (config_list t). from_nonzero_group (target_sparsity_list s) e)"
proof (cases "temp_config_list s")
  case None
  from assms(2) None obtain cl sl pos where
    i: "init_temp_config_list g (weights_numel s) (target_sparsity_list s) (rng_pos s) =
          Some (Inr ((cl, sl), pos))"
    and e: "emit_task (s\<lparr>temp_config_list := Some cl, temp_sparsity_list := sl,
                          rng_pos := pos\<rparr>) = Inr (ts, s')"
    by (auto simp: sa_generate_tasks_def split: option.splits sum.splits)
  note I = init_temp_config_list_zero [OF i]
  let ?s1 = "s\<lparr>temp_config_list := Some cl, temp_sparsity_list := sl, rng_pos := pos\<rparr>"
  have z: "zero_kept ?s1"
    using assms(1) I by (auto simp: zero_kept_def split: option.splits)
  show ?thesis using emit_task_zero [OF e _ _ z] I by simp
next
  case (Some cl0)
  from assms(2) Some obtain i t s1 where rid: "rid = Tid i" and t: "tasks s i = Some t"
    and a: "anneal_step g s (score t) = Inr s1"
    by (auto simp: sa_generate_tasks_def split: option.splits sum.splits result_id.splits)
  have A: "zero_kept s1" "target_sparsity_list s1 = target_sparsity_list s"
    using anneal_step_zero [OF a assms(1)] Some by simp_all
  show ?thesis
  proof (cases "current_temperature s1 < stop_temperature s1")
    case True
    then have "ts = []" "s' = s1"
      using assms(2) Some rid t a by (auto simp: sa_generate_tasks_def)
    then show ?thesis using A by simp
  next
    case False
    then obtain s2 where u: "update_with_perturbations g s1 = Some (Inr s2)"
      and e: "emit_task s2 = Inr (ts, s')"
      using assms(2) Some rid t a
      by (auto simp: sa_generate_tasks_def split: option.splits sum.splits)
    from update_with_perturbations_zero [OF u A(1)] obtain cl where
      U: "zero_kept s2" "target_sparsity_list s2 = target_sparsity_list s1"
         "temp_config_list s2 = Some cl"
         "\<forall>e\<in>set cl. from_nonzero_group (target_sparsity_list s1) e"
      by blast
    show ?thesis using emit_task_zero [OF e U(3) _ U(1)] U(2,4) A(2) by simp
  qed
qed

lemma sa_init_zero:
  assumes "sa_init wn mr canonical start stop rate magnitude b = Inr s0"
  shows "zero_kept s0"
  using assms by (auto simp: sa_init_def zero_kept_def split: sum.splits)

lemma zero_group_no_entry:
  assumes "zero_groups_apart T" and "c \<in> set T" and "total_sparsity c = 0"
    and "from_nonzero_group T e"
  shows "\<not> entry_of_group c e"
  using assms
  by (fastforce simp: zero_groups_apart_def from_nonzero_group_def entry_of_group_def)

text \<open>
  C9: for a group whose target sparsity is 0, the initial candidate generation returns
  an empty config list and an empty sparsity vector, and a perturbation step keeps an
  empty vector empty and draws nothing for it. The constructed state and every call of
  \<^verbatim>\<open>generate_tasks\<close> that returns keep the vectors of these groups empty, and every
  config entry of a generated task names an op of a group with a non-zero target; when
  the groups of target 0 share no op with the others, no entry belongs to them.
\<close>

theorem zero_sparsity_groups:
  "(total_sparsity c = 0 \<longrightarrow> init_config_sparsity g wn c pos = Some (Inr (([], []), pos)))
   \<and> perturb_group g wn m c [] pos = Some (Inr (([], []), pos))
   \<and> (sa_init wn mr canonical start stop rate magnitude b = Inr s0 \<longrightarrow> zero_kept s0)
   \<and> (zero_kept s \<and> sa_generate_tasks g s rid = Some (Inr (ts, s')) \<longrightarrow>
        zero_kept s' \<and> target_sparsity_list s' = target_sparsity_list s \<and>
        (\<forall>t\<in>set ts. \<forall>e\<in>set (config_list t).
           from_nonzero_group (target_sparsity_list s) e \<and>
           (zero_groups_apart (target_sparsity_list s) \<longrightarrow>
              (\<forall>z\<in>set (target_sparsity_list s). total_sparsity z = 0 \<longrightarrow>
                 \<not> entry_of_group z e))))"
proof (intro conjI impI)
  show "init_config_sparsity g wn c pos = Some (Inr (([], []), pos))" if "total_sparsity c = 0"
    using that by (simp add: init_config_sparsity_def)
  show "perturb_group g wn m c [] pos = Some (Inr (([], []), pos))"
    by (simp add: perturb_group_def)
  show "zero_kept s0" if "sa_init wn mr canonical start stop rate magnitude b = Inr s0"
    using that by (rule sa_init_zero)
next
  assume a: "zero_kept s \<and> sa_generate_tasks g s rid = Some (Inr (ts, s'))"
  note Z = sa_generate_tasks_zero [OF conjunct1 [OF a] conjunct2 [OF a]]
  show "zero_kept s'" "target_sparsity_list s' = target_sparsity_list s"
    using Z by simp_all
  show "\<forall>t\<in>set ts. \<forall>e\<in>set (config_list t).
           from_nonzero_group (target_sparsity_list s) e \<and>
           (zero_groups_apart (target_sparsity_list s) \<longrightarrow>
              (\<forall>z\<in>set (target_sparsity_list s). total_sparsity z = 0 \<longrightarrow>
                 \<not> entry_of_group z e))"
    using Z zero_group_no_entry by blast
qed


theorem zero_sparsity_groups_witness:
  "init_config_sparsity half_rng [(''conv1'', 4), (''fc1'', 10)]
       \<lparr>op_names = [''conv1''], total_sparsity = 0\<rparr> 0 = Some (Inr (([], []), 0))
   \<and> perturb_group half_rng [(''conv1'', 4), (''fc1'', 10)] (7/20)
       \<lparr>op_names = [''conv1''], total_sparsity = 0\<rparr> [] 0 = Some (Inr (([], []), 0))
   \<and> sa_generate_tasks half_rng
       \<lparr>task_id_candidate = 0, tasks = Map.empty,
         start_temperature = 100, current_temperature = 100, stop_temperature = 20,
         cool_down_rate = 9/10, perturbation_magnitude = 7/20,
         weights_numel = [(''conv1'', 4), (''fc1'', 10)], masked_rate = [],
         target_sparsity_list = [\<lparr>op_names = [''conv1''], total_sparsity = 0\<rparr>,
                                 \<lparr>op_names = [''fc1''], total_sparsity = 1/2\<rparr>],
         temp_config_list = None, temp_sparsity_list = [],
         current_sparsity_list = None, current_score = None, rng_pos = 0\<rparr> Origin
     = Some (Inr ([\<lparr>task_id = 0, result_of = Origin,
                     config_list = [\<lparr>op_names = [''fc1''], total_sparsity = 1/2\<rparr>],
                     current2origin = None, score = None\<rparr>],
       \<lparr>task_id_candidate = 1,
         tasks = [0 \<mapsto> \<lparr>task_id = 0, result_of = Origin,
                     config_list = [\<lparr>op_names = [''fc1''], total_sparsity = 1/2\<rparr>],
                     current2origin = None, score = None\<rparr>],
         start_temperature = 100, current_temperature = 100, stop_temperature = 20,
         cool_down_rate = 9/10, perturbation_magnitude = 7/20,
         weights_numel = [(''conv1'', 4), (''fc1'', 10)], masked_rate = [],
         target_sparsity_list = [\<lparr>op_names = [''conv1''], total_sparsity = 0\<rparr>,
                                 \<lparr>op_names = [''fc1''], total_sparsity = 1/2\<rparr>],
         temp_config_list = Some [\<lparr>op_names = [''fc1''], total_sparsity = 1/2\<rparr>],
         temp_sparsity_list = [[], [1/2]],
         current_sparsity_list = None, current_score = None, rng_pos = 1\<rparr>))
   \<and> \<not> entry_of_group \<lparr>op_names = [''conv1''], total_sparsity = 0\<rparr>
         \<lparr>op_names = [''fc1''], total_sparsity = 1/2\<rparr>"
proof -
  let ?wn = "[(''conv1'', 4), (''fc1'', 10 :: int)]"
  let ?z = "\<lparr>op_names = [''conv1''], total_sparsity = 0\<rparr>"
  let ?e = "\<lparr>op_names = [''fc1''], total_sparsity = 1/2\<rparr>"
  let ?t = "\<lparr>task_id = 0, result_of = Origin, config_list = [?e],
             current2origin = None, score = None\<rparr>"
  let ?S0 = "\<lparr>task_id_candidate = 0, tasks = Map.empty,
         start_temperature = 100, current_temperature = 100, stop_temperature = 20,
         cool_down_rate = 9/10, perturbation_magnitude = 7/20,
         weights_numel = ?wn, masked_rate = [],
         target_sparsity_list = [?z, ?e],
         temp_config_list = None, temp_sparsity_list = [],
         current_sparsity_list = None, current_score = None, rng_pos = 0\<rparr>"
  let ?S1 = "\<lparr>task_id_candidate = 1, tasks = [0 \<mapsto> ?t],
         start_temperature = 100, current_temperature = 100, stop_temperature = 20,
         cool_down_rate = 9/10, perturbation_magnitude = 7/20,
         weights_numel = ?wn, masked_rate = [],
         target_sparsity_list = [?z, ?e],
         temp_config_list = Some [?e], temp_sparsity_list = [[], [1/2]],
         current_sparsity_list = None, current_score = None, rng_pos = 1\<rparr>"
  note th = zero_sparsity_groups [where c = ?z and g = half_rng and wn = ?wn and pos = 0
      and m = "7/20" and s = ?S0 and rid = Origin and ts = "[?t]" and s' = ?S1
      and mr = "[]" and canonical = "[]" and start = 100 and stop = 20 and rate = "9/10"
      and magnitude = "7/20" and b = "\<lparr>task_id_candidate = 0, tasks = Map.empty\<rparr>"
      and s0 = ?S0]
  have sample: "init_sample half_rng ?wn (1/2) [''fc1''] 0 = Some (Inr ([1/2], 1))"
    by (subst init_sample.simps)
       (simp add: uniform_def half_rng_def rescale_sparsity_def py_int_def feasible_def)
  have call: "sa_generate_tasks half_rng ?S0 Origin = Some (Inr ([?t], ?S1))"
    by (simp add: sa_generate_tasks_def init_config_sparsity_def sample
        sparsity_to_config_list_def emit_task_def recover_config_def Let_def)
  have zk: "zero_kept ?S0" by (simp add: zero_kept_def)
  have apart: "zero_groups_apart (target_sparsity_list ?S0)"
    by (simp add: zero_groups_apart_def)
  have a: "init_config_sparsity half_rng ?wn ?z 0 = Some (Inr (([], []), 0))"
    using th [THEN conjunct1] by simp
  have b: "perturb_group half_rng ?wn (7/20) ?z [] 0 = Some (Inr (([], []), 0))"
    using th [THEN conjunct2, THEN conjunct1] .
  have c: "\<forall>t\<in>set [?t]. \<forall>e\<in>set (config_list t).
           from_nonzero_group (target_sparsity_list ?S0) e \<and>
           (zero_groups_apart (target_sparsity_list ?S0) \<longrightarrow>
              (\<forall>z\<in>set (target_sparsity_list ?S0). total_sparsity z = 0 \<longrightarrow>
                 \<not> entry_of_group z e))"
    using th [THEN conjunct2, THEN conjunct2, THEN conjunct2, THEN mp, OF conjI [OF zk call]]
    by blast
  have d: "\<not> entry_of_group ?z ?e" using c apart by simp
  show ?thesis using a b call d by blast
qed

section \<open>Properties of the command decoder\<close>

lemma map_of_filter_other:
  "k \<noteq> k' \<Longrightarrow> map_of (filter (\<lambda>(a, _). a \<noteq> k') data) k = map_of data k"
  by (induction data) auto

text \<open>
  With \<^verbatim>\<open>_camel_case\<close> and \<^verbatim>\<open>_logger\<close> bound, the loop over the fields never raises
  (the \<^verbatim>\<open>pop\<close> is guarded by the membership test): a field whose key is missing is set
  to \<^verbatim>\<open>None\<close> and logged, a field whose key is present gets the input's value.
\<close>

lemma load_fields_spec:
  assumes "distinct (map camel_case fs)" and "''_camel_case'' \<in> set g" and "''_logger'' \<in> set g"
  shows "load_fields g fs data obj lg =
     Inr ((\<lambda>f. if f \<in> set fs then Some (map_of data (camel_case f)) else obj f),
          filter (\<lambda>(k, _). k \<notin> camel_case ` set fs) data,
          lg @ map MissingField (filter (\<lambda>f. map_of data (camel_case f) = None) fs))"
  using assms(1)
proof (induction fs arbitrary: data obj lg)
  case Nil
  then show ?case by simp
next
  case (Cons f fs)
  have df: "distinct (map camel_case fs)" and nf: "camel_case f \<notin> camel_case ` set fs"
    using Cons.prems by simp_all
  have fnot: "f \<notin> set fs" using nf by auto
  show ?case
  proof (cases "map_of data (camel_case f)")
    case None
    have "filter (\<lambda>(k, _). k \<notin> camel_case ` set (f # fs)) data =
        filter (\<lambda>(k, _). k \<notin> camel_case ` set fs) data"
      using None by (intro filter_cong) (auto simp: map_of_eq_None_iff rev_image_eqI)
    then show ?thesis
      using None Cons.IH [OF df] fnot assms(2,3) by (auto simp: fun_eq_iff)
  next
    case (Some v)
    let ?d = "filter (\<lambda>(k', _). k' \<noteq> camel_case f) data"
    have pop: "py_pop (camel_case f) data = Inr (v, ?d)" using Some by (simp add: py_pop_def)
    have keep: "map_of ?d (camel_case h) = map_of data (camel_case h)" if "h \<in> set fs" for h
      using that nf by (intro map_of_filter_other) (metis image_eqI)
    have f1: "filter (\<lambda>(k, _). k \<notin> camel_case ` set fs) ?d =
        filter (\<lambda>(k, _). k \<notin> camel_case ` set (f # fs)) data"
      by (auto simp: filter_filter intro!: filter_cong)
    have f2: "filter (\<lambda>h. map_of ?d (camel_case h) = None) fs =
        filter (\<lambda>h. map_of data (camel_case h) = None) fs"
      using keep by (intro filter_cong) auto
    show ?thesis
      using Some pop Cons.IH [OF df, of ?d] fnot keep f1 f2 assms(2,3)
      by (auto simp: fun_eq_iff Let_def)
  qed
qed

lemma load_fault_tolerant:
  assumes "distinct (map camel_case fs)"
    and "''fields'' \<in> set g" and "''_camel_case'' \<in> set g" and "''_logger'' \<in> set g"
  shows "load g fs data =
     Inr ((\<lambda>f. if f \<in> set fs then Some (map_of data (camel_case f)) else None),
          map MissingField (filter (\<lambda>f. map_of data (camel_case f) = None) fs) @
          (if filter (\<lambda>(k, _). k \<notin> camel_case ` set fs) data \<noteq> []
           then [UnrecognizedFields (filter (\<lambda>(k, _). k \<notin> camel_case ` set fs) data)]
           else []))"
  using assms(2,4) load_fields_spec [OF assms(1,3,4), of data Map.empty "[]"]
  by (simp add: load_def)

lemma base_py_names:
  "module_names base_py =
     [''annotations'', ''decode_command'', ''Command'', ''ToAlgoCommand'', ''FromAlgoCommand'',
      ''_camel_case'', ''_find_command_class'']"
  by (simp add: base_py_def)

text \<open>
  C10: \<^verbatim>\<open>Command._load\<close> is claimed never to raise. In the repository it raises on
  every input: \<^verbatim>\<open>base.py\<close> binds neither \<^verbatim>\<open>fields\<close> nor \<^verbatim>\<open>_logger\<close>, so with the
  names the module binds the call stops with NameError at \<^verbatim>\<open>fields(cls)\<close>, for every
  list of fields and every input object; and importing the module stops with NameError
  at \<^verbatim>\<open>class FromAlgoCommand(command)\<close>.
\<close>

theorem load_raises_name_error:
  "exec_module base_py [] = Inl (NameError ''command'') \<and>
   load (module_names base_py) fs data = Inl (NameError ''fields'')"
  by (simp add: base_py_def load_def)

end
